theory Spec2Isabelle
  imports Complex_Main "HOL-Library.Sublist"
begin

section \<open>JavaScript values\<close>

text \<open>
  The values that flow through the controller and the chart: \<open>undefined\<close>, \<open>null\<close>,
  strings and arrays (the chart's \<open>_data\<close> starts as the empty array).
\<close>

datatype jsval = Undefined | Null | Str string | Arr "jsval list"

datatype error = TypeError

text \<open>
  String conversion as a template literal \<open>`${v}`\<close> performs it: \<open>undefined\<close> and
  \<open>null\<close> print their names, an array joins its elements with commas, printing
  \<open>undefined\<close> and \<open>null\<close> elements as the empty string.
\<close>

fun join_with :: "string \<Rightarrow> string list \<Rightarrow> string" where
  "join_with sep [] = []"
| "join_with sep [x] = x"
| "join_with sep (x # y # ys) = x @ sep @ join_with sep (y # ys)"

fun js_string :: "jsval \<Rightarrow> string" where
  "js_string Undefined = ''undefined''"
| "js_string Null = ''null''"
| "js_string (Str s) = s"
| "js_string (Arr vs) =
     join_with '',''
       (map (\<lambda>v. case v of Undefined \<Rightarrow> [] | Null \<Rightarrow> [] | _ \<Rightarrow> js_string v) vs)"

text \<open>
  Strict equality \<open>===\<close>: primitives compare by value; an array is an object and is
  only equal to itself, which no value read from a CSV row or a control ever is.
\<close>

fun strict_eq :: "jsval \<Rightarrow> jsval \<Rightarrow> bool" where
  "strict_eq Undefined Undefined = True"
| "strict_eq Null Null = True"
| "strict_eq (Str a) (Str b) = (a = b)"
| "strict_eq _ _ = False"

text \<open>Decimal printing of an integer-valued number, as \<open>"" + n\<close> does.\<close>

definition digit_char :: "nat \<Rightarrow> char" where
  "digit_char d = char_of (48 + d)"

fun show_nat :: "nat \<Rightarrow> string" where
  "show_nat n = (if n < 10 then [digit_char n] else show_nat (n div 10) @ [digit_char (n mod 10)])"

definition show_int :: "int \<Rightarrow> string" where
  "show_int i = (if i < 0 then CHR ''-'' # show_nat (nat (- i)) else show_nat (nat i))"

section \<open>The document the chart draws into\<close>

text \<open>
  A d3 selection is a reference to one element of the document, the element matched by
  \<open>Global.CHART_SELECTOR\<close>, or the empty selection. The document is the list of the
  elements created so far; an element's index is its identity.
\<close>

datatype selection = Container | Node nat | EmptySel

datatype attr_value = ANum rat | AStr string

record element =
  tag :: string
  parent :: selection
  attrs :: "(string \<times> attr_value) list"
  styles :: "(string \<times> string) list"
  text_content :: string

record dom =
  has_container :: bool
  elements :: "element list"

definition d3_select :: "dom \<Rightarrow> selection" where
  "d3_select d = (if has_container d then Container else EmptySel)"

text \<open>\<open>selection.append(tag)\<close>: on the empty selection nothing is created.\<close>

definition append_el :: "selection \<Rightarrow> string \<Rightarrow> dom \<Rightarrow> dom \<times> selection" where
  "append_el sel t d =
     (case sel of
        EmptySel \<Rightarrow> (d, EmptySel)
      | _ \<Rightarrow> (d\<lparr>elements := elements d @
                 [\<lparr>tag = t, parent = sel, attrs = [], styles = [], text_content = []\<rparr>]\<rparr>,
              Node (length (elements d))))"

definition update_el :: "selection \<Rightarrow> (element \<Rightarrow> element) \<Rightarrow> dom \<Rightarrow> dom" where
  "update_el sel f d =
     (case sel of
        Node i \<Rightarrow> (if i < length (elements d)
                   then d\<lparr>elements := (elements d)[i := f (elements d ! i)]\<rparr> else d)
      | _ \<Rightarrow> d)"

fun set_key :: "'k \<Rightarrow> 'v \<Rightarrow> ('k \<times> 'v) list \<Rightarrow> ('k \<times> 'v) list" where
  "set_key k v [] = [(k, v)]"
| "set_key k v ((k', v') # kvs) =
     (if k = k' then (k, v) # kvs else (k', v') # set_key k v kvs)"

definition set_attrs :: "selection \<Rightarrow> (string \<times> attr_value) list \<Rightarrow> dom \<Rightarrow> dom" where
  "set_attrs sel kvs d =
     update_el sel (\<lambda>e. e\<lparr>attrs := foldl (\<lambda>as (k, v). set_key k v as) (attrs e) kvs\<rparr>) d"

definition set_style :: "selection \<Rightarrow> string \<Rightarrow> string \<Rightarrow> dom \<Rightarrow> dom" where
  "set_style sel k v d = update_el sel (\<lambda>e. e\<lparr>styles := set_key k v (styles e)\<rparr>) d"

definition set_text :: "selection \<Rightarrow> string \<Rightarrow> dom \<Rightarrow> dom" where
  "set_text sel s d = update_el sel (\<lambda>e. e\<lparr>text_content := s\<rparr>) d"

section \<open>Chart\<close>

record margin =
  top :: int
  right :: int
  bottom :: int
  left :: int

text \<open>
  Scales are objects that the chart and its axes share by reference: they live in a store
  (\<open>scales\<close>), and \<open>_x\<close>, \<open>_y\<close> and the axes hold addresses into it. A number that is
  \<open>NaN\<close> or \<open>undefined\<close> is \<open>None\<close>.
\<close>

datatype 'n scale =
    ScalePoint "jsval list" "int \<times> int"
  | ScaleLinear "'n option \<times> 'n option" "int \<times> int"

datatype orient = Bottom | Left

record axis =
  orient :: orient
  axis_scale :: "nat option"
  ticks :: "nat option"

record 'n chart =
  priv_w :: int
  priv_h :: int
  priv_margin :: margin
  priv_width :: int
  priv_height :: int
  priv_data :: jsval
  priv_key_x :: jsval
  priv_key_y :: jsval
  priv_svg :: "selection option"
  priv_title :: "selection option"
  priv_subtitle :: "selection option"
  priv_path :: "selection option"
  priv_line :: "unit option"
  priv_g :: "selection option"
  priv_gX :: "selection option"
  priv_gY :: "selection option"
  priv_x :: "nat option"
  priv_y :: "nat option"
  priv_xAxis :: "axis option"
  priv_yAxis :: "axis option"
  scales :: "'n scale list"

text \<open>The constructor: every reference is \<open>null\<close> (\<open>None\<close>), the sizes are fixed.\<close>

definition Chart_new :: "'n chart" where
  "Chart_new =
     (let w = 700; h = 500; m = \<lparr>top = 50, right = 30, bottom = 120, left = 80\<rparr>
      in \<lparr>priv_w = w, priv_h = h, priv_margin = m,
          priv_width = w - left m - right m,
          priv_height = h - top m - bottom m,
          priv_data = Arr [], priv_key_x = Null, priv_key_y = Null,
          priv_svg = None, priv_title = None, priv_subtitle = None,
          priv_path = None, priv_line = None, priv_g = None, priv_gX = None, priv_gY = None,
          priv_x = None, priv_y = None, priv_xAxis = None, priv_yAxis = None,
          scales = []\<rparr>)"

subsection \<open>Accessors\<close>

text \<open>
  A method call passes its argument list; \<open>arguments.length\<close> is its length. A method
  returns a value or \<open>this\<close>; the object after the call is returned beside it.
\<close>

datatype ret = RValue jsval | RThis

fun data :: "'n chart \<Rightarrow> jsval list \<Rightarrow> 'n chart \<times> ret" where
  "data c [] = (c, RValue (priv_data c))"
| "data c (d # _) = (c\<lparr>priv_data := d\<rparr>, RThis)"

fun key_x :: "'n chart \<Rightarrow> jsval list \<Rightarrow> 'n chart \<times> ret" where
  "key_x c [] = (c, RValue (priv_key_x c))"
| "key_x c (k # _) = (c\<lparr>priv_key_x := k\<rparr>, RThis)"

fun key_y :: "'n chart \<Rightarrow> jsval list \<Rightarrow> 'n chart \<times> ret" where
  "key_y c [] = (c, RValue (priv_key_y c))"
| "key_y c (k # _) = (c\<lparr>priv_key_y := k\<rparr>, RThis)"

subsection \<open>Creating the drawing surface\<close>

text \<open>
  \<open>defineSettings\<close> creates the line generator and the path element once each; the
  path is appended to \<open>_g\<close>, and appending to \<open>null\<close> is a \<open>TypeError\<close>.
\<close>

definition defineSettings :: "'n chart \<times> dom \<Rightarrow> error + 'n chart \<times> dom" where
  "defineSettings s =
     (let (c, d) = s;
          c = (if priv_line c = None then c\<lparr>priv_line := Some ()\<rparr> else c)
      in if priv_path c = None then
           (case priv_g c of
              None \<Rightarrow> Inl TypeError
            | Some g \<Rightarrow> (let (d, p) = append_el g ''path'' d
                        in Inr (c\<lparr>priv_path := Some p\<rparr>, d)))
         else Inr (c, d))"

definition init_svg :: "'n chart \<times> dom \<Rightarrow> 'n chart \<times> dom" where
  "init_svg s =
     (let (c, d) = s in
      if priv_svg c = None then
        (let (d, e) = append_el (d3_select d) ''svg'' d;
             d = set_attrs e
                   [(''width'', ANum (of_int (priv_width c + left (priv_margin c)
                                               + right (priv_margin c)))),
                    (''height'', ANum (of_int (priv_height c + top (priv_margin c)
                                                + bottom (priv_margin c))))] d;
             d = set_style e ''visibility'' ''hidden'' d
         in (c\<lparr>priv_svg := Some e\<rparr>, d))
      else (c, d))"

text \<open>
  The remaining elements are appended to \<open>_svg\<close>, which the first step has made
  non-null; the case \<open>None\<close> is the \<open>TypeError\<close> of a call on \<open>null\<close>.
\<close>

definition init_gX :: "'n chart \<times> dom \<Rightarrow> error + 'n chart \<times> dom" where
  "init_gX s =
     (let (c, d) = s in
      if priv_gX c = None then
        (case priv_svg c of
           None \<Rightarrow> Inl TypeError
         | Some svg \<Rightarrow>
             (let (d, e) = append_el svg ''g'' d;
                  d = set_attrs e
                        [(''class'', AStr ''chart__axis chart__axis--x''),
                         (''transform'', AStr (''translate('' @ show_int (left (priv_margin c))
                            @ '', '' @ show_int (priv_height c + top (priv_margin c)) @ '')''))] d
              in Inr (c\<lparr>priv_gX := Some e\<rparr>, d)))
      else Inr (c, d))"

definition init_gY :: "'n chart \<times> dom \<Rightarrow> error + 'n chart \<times> dom" where
  "init_gY s =
     (let (c, d) = s in
      if priv_gY c = None then
        (case priv_svg c of
           None \<Rightarrow> Inl TypeError
         | Some svg \<Rightarrow>
             (let (d, e) = append_el svg ''g'' d;
                  d = set_attrs e
                        [(''class'', AStr ''chart__axis chart__axis--y''),
                         (''transform'', AStr (''translate('' @ show_int (left (priv_margin c))
                            @ '', '' @ show_int (top (priv_margin c)) @ '')''))] d
              in Inr (c\<lparr>priv_gY := Some e\<rparr>, d)))
      else Inr (c, d))"

definition init_g :: "'n chart \<times> dom \<Rightarrow> error + 'n chart \<times> dom" where
  "init_g s =
     (let (c, d) = s in
      if priv_g c = None then
        (case priv_svg c of
           None \<Rightarrow> Inl TypeError
         | Some svg \<Rightarrow>
             (let (d, e) = append_el svg ''g'' d;
                  d = set_attrs e
                        [(''transform'', AStr (''translate('' @ show_int (left (priv_margin c))
                            @ '','' @ show_int (top (priv_margin c)) @ '')''))] d
              in Inr (c\<lparr>priv_g := Some e\<rparr>, d)))
      else Inr (c, d))"

definition init_title :: "'n chart \<times> dom \<Rightarrow> error + 'n chart \<times> dom" where
  "init_title s =
     (let (c, d) = s in
      if priv_title c = None then
        (case priv_svg c of
           None \<Rightarrow> Inl TypeError
         | Some svg \<Rightarrow>
             (let (d, e) = append_el svg ''text'' d;
                  d = set_attrs e
                        [(''x'', ANum (of_int (left (priv_margin c)) + of_int (priv_width c) / 2)),
                         (''y'', ANum 15),
                         (''class'', AStr ''chart__title'')] d
              in Inr (c\<lparr>priv_title := Some e\<rparr>, d)))
      else Inr (c, d))"

definition init_subtitle :: "'n chart \<times> dom \<Rightarrow> error + 'n chart \<times> dom" where
  "init_subtitle s =
     (let (c, d) = s in
      if priv_subtitle c = None then
        (case priv_svg c of
           None \<Rightarrow> Inl TypeError
         | Some svg \<Rightarrow>
             (let (d, e) = append_el svg ''text'' d;
                  d = set_attrs e
                        [(''x'', ANum (of_int (left (priv_margin c)) + of_int (priv_width c) / 2)),
                         (''y'', ANum 40),
                         (''class'', AStr ''chart__subtitle'')] d
              in Inr (c\<lparr>priv_subtitle := Some e\<rparr>, d)))
      else Inr (c, d))"

text \<open>Sequencing of steps that may throw: the first error ends the call.\<close>

definition and_then ::
  "error + 'a \<Rightarrow> ('a \<Rightarrow> error + 'b) \<Rightarrow> error + 'b" where
  "and_then r f = (case r of Inl e \<Rightarrow> Inl e | Inr a \<Rightarrow> f a)"

definition init :: "'n chart \<times> dom \<Rightarrow> error + 'n chart \<times> dom" where
  "init s =
     and_then (init_gX (init_svg s)) (\<lambda>s.
     and_then (init_gY s) (\<lambda>s.
     and_then (init_g s) (\<lambda>s.
     and_then (init_title s) (\<lambda>s.
     and_then (init_subtitle s) defineSettings))))"

text \<open>The chart is fully set up when every reference that \<open>init\<close> guards is non-null.\<close>

definition initialised :: "'n chart \<Rightarrow> bool" where
  "initialised c \<longleftrightarrow>
     priv_svg c \<noteq> None \<and> priv_gX c \<noteq> None \<and> priv_gY c \<noteq> None \<and> priv_g c \<noteq> None \<and>
     priv_title c \<noteq> None \<and> priv_subtitle c \<noteq> None \<and> priv_line c \<noteq> None \<and>
     priv_path c \<noteq> None"

subsection \<open>Rendering\<close>

text \<open>
  A parsed CSV row is an object whose properties are the column headers and whose values
  are the cells as strings; reading a column the row does not have gives \<open>undefined\<close>.
\<close>

type_synonym row = "string \<rightharpoonup> string"

definition cell :: "row \<Rightarrow> string \<Rightarrow> jsval" where
  "cell d k = (case d k of None \<Rightarrow> Undefined | Some s \<Rightarrow> Str s)"

text \<open>
  Unary plus on a cell. How a string reads as a number is the parameter \<open>num\<close>
  (\<open>None\<close> for \<open>NaN\<close>); \<open>+undefined\<close> is \<open>NaN\<close>. A cell is a string or
  \<open>undefined\<close>; the other values never reach this function from a row.
\<close>

fun to_number :: "(string \<Rightarrow> 'n option) \<Rightarrow> jsval \<Rightarrow> 'n option" where
  "to_number num (Str s) = num s"
| "to_number num _ = None"

text \<open>\<open>String.prototype.replace\<close> with a string pattern of one character: the first
  occurrence only.\<close>

fun replace_first :: "char \<Rightarrow> string \<Rightarrow> string \<Rightarrow> string" where
  "replace_first p r [] = []"
| "replace_first p r (c # cs) = (if c = p then r @ cs else c # replace_first p r cs)"

text \<open>
  \<open>d3.min\<close> and \<open>d3.max\<close> with an accessor, as d3-array computes them: values that
  are \<open>null\<close>, \<open>undefined\<close> or \<open>NaN\<close> are skipped, the first remaining value starts
  the running extreme, and the result is \<open>undefined\<close> when nothing remains.
\<close>

fun d3_min_from :: "'n::linorder \<Rightarrow> 'n option list \<Rightarrow> 'n" where
  "d3_min_from m [] = m"
| "d3_min_from m (None # vs) = d3_min_from m vs"
| "d3_min_from m (Some x # vs) = (if m > x then d3_min_from x vs else d3_min_from m vs)"

fun d3_min :: "'n::linorder option list \<Rightarrow> 'n option" where
  "d3_min [] = None"
| "d3_min (None # vs) = d3_min vs"
| "d3_min (Some x # vs) = Some (d3_min_from x vs)"

fun d3_max_from :: "'n::linorder \<Rightarrow> 'n option list \<Rightarrow> 'n" where
  "d3_max_from m [] = m"
| "d3_max_from m (None # vs) = d3_max_from m vs"
| "d3_max_from m (Some x # vs) = (if m < x then d3_max_from x vs else d3_max_from m vs)"

fun d3_max :: "'n::linorder option list \<Rightarrow> 'n option" where
  "d3_max [] = None"
| "d3_max (None # vs) = d3_max vs"
| "d3_max (Some x # vs) = Some (d3_max_from x vs)"

text \<open>The values of a column that are numbers, in the order of the rows.\<close>

fun numbers :: "'n option list \<Rightarrow> 'n list" where
  "numbers [] = []"
| "numbers (None # vs) = numbers vs"
| "numbers (Some x # vs) = x # numbers vs"

text \<open>
  The domain of a point scale keeps the first occurrence of each value, values being
  told apart by their string form.
\<close>

fun ordinal_domain :: "string list \<Rightarrow> jsval list \<Rightarrow> jsval list" where
  "ordinal_domain seen [] = []"
| "ordinal_domain seen (v # vs) =
     (if js_string v \<in> set seen then ordinal_domain seen vs
      else v # ordinal_domain (js_string v # seen) vs)"

text \<open>
  The entries of \<open>_d\<close>: each starts as an empty array, whose \<open>x\<close> and \<open>y\<close> are
  \<open>undefined\<close>, and is then given both.
\<close>

record 'n point =
  px :: jsval
  py :: "'n option"

definition empty_point :: "'n point" where
  "empty_point = \<lparr>px = Undefined, py = None\<rparr>"

text \<open>
  The first \<open>forEach\<close>: \<open>_d\<close> and the counter \<open>i\<close> are threaded through the rows.
  Writing a property of \<open>_d[i]\<close> when \<open>i\<close> is out of range is a \<open>TypeError\<close>.
\<close>

fun collect_points ::
  "(string \<Rightarrow> 'n option) \<Rightarrow> jsval \<Rightarrow> string \<Rightarrow> row list \<Rightarrow> 'n point list \<times> nat
   \<Rightarrow> error + 'n point list \<times> nat" where
  "collect_points num v kx [] (ps, i) = Inr (ps, i)"
| "collect_points num v kx (d # ds) (ps, i) =
     (if strict_eq (cell d ''state'') v then
        (let ps = ps @ [empty_point] in
         if i < length ps then
           (let ps = ps[i := (ps ! i)\<lparr>px := cell d []\<rparr>];
                ps = ps[i := (ps ! i)\<lparr>py := to_number num (cell d kx)\<rparr>]
            in collect_points num v kx ds (ps, i + 1))
         else Inl TypeError)
      else collect_points num v kx ds (ps, i))"

text \<open>
  The second \<open>forEach\<close> builds the dots. Their coordinates are what the two scales
  return for the row id and for the cell of the active column; the model keeps the
  arguments handed to the scales.
\<close>

record dot =
  x_of :: jsval
  y_of :: jsval
  active :: bool

fun collect_dots :: "jsval \<Rightarrow> string \<Rightarrow> jsval \<Rightarrow> row list \<Rightarrow> dot list \<Rightarrow> dot list" where
  "collect_dots v kx ky [] tmp = tmp"
| "collect_dots v kx ky (d # ds) tmp =
     (if strict_eq (cell d ''state'') v
      then collect_dots v kx ky ds
             (tmp @ [\<lparr>x_of = cell d [], y_of = cell d kx, active = strict_eq (cell d []) ky\<rparr>])
      else collect_dots v kx ky ds tmp)"

record 'n drawing =
  line_data :: "'n point list"
  dots :: "dot list"

datatype csv = Parsed "row list" | Rejected

text \<open>\<open>selection.text(v)\<close> writes the empty string for \<open>null\<close> and \<open>undefined\<close>.\<close>

definition text_of :: "jsval \<Rightarrow> string" where
  "text_of v = (case v of Undefined \<Rightarrow> [] | Null \<Rightarrow> [] | _ \<Rightarrow> js_string v)"

text \<open>
  The callback of \<open>render\<close> on the parsed rows, up to the data handed to the drawing
  calls. The calls that draw (axes, path, grid lines, circles) write attributes of
  elements that d3 creates and are outside this model; the receivers they are called on
  are checked for \<open>null\<close> where the source dereferences them. A call that throws
  returns the error only.
\<close>

definition render_data ::
  "(string \<Rightarrow> 'n::linorder option) \<Rightarrow> jsval \<Rightarrow> row list \<Rightarrow> 'n chart \<times> dom
   \<Rightarrow> error + ('n chart \<times> dom) \<times> 'n drawing" where
  "render_data num v rows s =
     (let (c, d) = s in
      (case priv_title c of
         None \<Rightarrow> Inl TypeError
       | Some t \<Rightarrow>
          (let d = set_text t (text_of v) d in
           (case priv_subtitle c of
              None \<Rightarrow> Inl TypeError
            | Some st \<Rightarrow>
               (case priv_key_x c of
                  Str kx \<Rightarrow>
                    (let d = set_text st (replace_first (CHR '' '') '' | '' kx) d in
                     and_then (collect_points num v kx rows ([], 0)) (\<lambda>(ps, i).
                      (let xa = length (scales c);
                           c = c\<lparr>priv_x := Some xa,
                                 scales := scales c @ [ScalePoint [] (0, priv_width c)]\<rparr>;
                           ya = length (scales c);
                           c = c\<lparr>priv_y := Some ya,
                                 scales := scales c @
                                   [ScaleLinear
                                      (d3_min (map (\<lambda>d. to_number num (cell d kx)) rows),
                                       d3_max (map (\<lambda>d. to_number num (cell d kx)) rows))
                                      (priv_height c, 0)]\<rparr>;
                           c = (if priv_xAxis c = None
                                then c\<lparr>priv_xAxis :=
                                  Some \<lparr>orient = Bottom, axis_scale = Some xa, ticks = None\<rparr>\<rparr>
                                else c);
                           c = (if priv_yAxis c = None
                                then c\<lparr>priv_yAxis :=
                                  Some \<lparr>orient = Left, axis_scale = None, ticks = Some 6\<rparr>\<rparr>
                                else c);
                           c = c\<lparr>scales := (scales c)
                                 [xa := ScalePoint (ordinal_domain [] (map px ps))
                                          (0, priv_width c)]\<rparr>
                       in if priv_gX c = None then Inl TypeError
                          else
                            (let c = c\<lparr>priv_yAxis :=
                                     map_option (\<lambda>a. a\<lparr>axis_scale := Some ya\<rparr>) (priv_yAxis c)\<rparr>
                             in if priv_gY c = None \<or> priv_g c = None \<or> priv_line c = None
                                then Inl TypeError
                                else
                                  (let tmp = collect_dots v kx (priv_key_y c) rows []
                                   in Inr ((c, d), \<lparr>line_data = ps, dots = tmp\<rparr>))))))
                | _ \<Rightarrow> Inl TypeError)))))"

text \<open>
  The rows whose discriminator column \<open>state\<close> equals the label, and the active
  column of all rows read as numbers.
\<close>

definition rows_of :: "jsval \<Rightarrow> row list \<Rightarrow> row list" where
  "rows_of v rows = filter (\<lambda>d. strict_eq (cell d ''state'') v) rows"

definition column :: "(string \<Rightarrow> 'n option) \<Rightarrow> string \<Rightarrow> row list \<Rightarrow> 'n option list" where
  "column num kx rows = map (\<lambda>d. to_number num (cell d kx)) rows"

text \<open>
  \<open>render(value)\<close> fetches the CSV named by \<open>_data\<close>; the response is the parameter
  \<open>resp\<close>. When the fetch is rejected the callback never runs and nothing is drawn.
\<close>

definition render ::
  "(string \<Rightarrow> 'n::linorder option) \<Rightarrow> jsval \<Rightarrow> csv \<Rightarrow> 'n chart \<times> dom
   \<Rightarrow> error + ('n chart \<times> dom) \<times> 'n drawing option" where
  "render num v resp s =
     (case resp of
        Rejected \<Rightarrow> Inr (s, None)
      | Parsed rows \<Rightarrow> and_then (render_data num v rows s) (\<lambda>(s, dr). Inr (s, Some dr)))"

section \<open>The page\<close>

text \<open>
  The parts of the host page the controller reads and writes, one field for each element
  its selectors address (the selectors themselves are constants of \<open>Global\<close>; the host
  page is taken to contain the elements they name).
\<close>

record option_el =
  opt_value :: string
  opt_text :: string

text \<open>
  A \<open>select\<close> element: \<open>sel_index\<close> is the index of the selected option (a browser
  selects the first option of a fresh single select; a select without options has no
  selected option), \<open>on_change\<close> counts the change handlers bound to it.
\<close>

record select_el =
  sel_name :: string
  sel_class :: string
  sel_options :: "option_el list"
  sel_index :: nat
  on_change :: nat

record overlay =
  content :: string
  child_classes :: "string list"
  closing :: bool

record page =
  wrapper_shown :: bool
  fullscreen :: overlay
  data_info :: string
  controls_inner :: string
  controls :: "select_el list"
  confirm_handlers :: nat
  main_shown :: bool
  body_classes :: "string list"
  cookies :: "(string \<times> string) list"
  title_text :: string

text \<open>
  \<open>title_text\<close> is the text of the \<open>title\<close> element, which the host page is taken
  to have. An assignment to \<open>document.title\<close> replaces that text. Reading
  \<open>document.title\<close> returns it with ASCII whitespace (tab, line feed, form feed,
  carriage return, space) stripped at both ends and every run of it inside collapsed to
  one space.
\<close>

definition ascii_ws :: "char \<Rightarrow> bool" where
  "ascii_ws c \<longleftrightarrow> c \<in> {CHR 0x09, CHR 0x0A, CHR 0x0C, CHR 0x0D, CHR '' ''}"

text \<open>\<open>started\<close>: a character other than whitespace has been read; \<open>gap\<close>:
  whitespace has been read since the last such character.\<close>

fun strip_collapse_from :: "bool \<Rightarrow> bool \<Rightarrow> string \<Rightarrow> string" where
  "strip_collapse_from started gap [] = []"
| "strip_collapse_from started gap (c # cs) =
     (if ascii_ws c then strip_collapse_from started True cs
      else if started \<and> gap then CHR '' '' # c # strip_collapse_from True False cs
      else c # strip_collapse_from True False cs)"

definition strip_and_collapse :: "string \<Rightarrow> string" where
  "strip_and_collapse s = strip_collapse_from False False s"

definition document_title :: "page \<Rightarrow> string" where
  "document_title pg = strip_and_collapse (title_text pg)"



text \<open>
  The constants of \<open>Global\<close> that are values rather than addresses of elements. Their
  module is not among the sources; they are parameters of the model.
\<close>

record global =
  DEVICE_NOTICE_COOKIE :: string
  DEVICE_NOTICE_CONFIRMED_CLASS :: string

definition add_class :: "string \<Rightarrow> string list \<Rightarrow> string list" where
  "add_class cls classes = (if cls \<in> set classes then classes else classes @ [cls])"

subsection \<open>Cookies\<close>

text \<open>
  The browser keeps name-value pairs; reading \<open>document.cookie\<close> lists them as
  \<open>name=value\<close> joined by a semicolon and a space, and assigning \<open>name=value\<close> to it
  sets that one cookie (attributes after a semicolon are not part of the pair).
\<close>

definition document_cookie :: "(string \<times> string) list \<Rightarrow> string" where
  "document_cookie jar = join_with ''; '' (map (\<lambda>(n, v). n @ ''='' @ v) jar)"

definition assign_cookie :: "string \<Rightarrow> (string \<times> string) list \<Rightarrow> (string \<times> string) list" where
  "assign_cookie s jar =
     (let pair = takeWhile (\<lambda>c. c \<noteq> CHR '';'') s;
          n = takeWhile (\<lambda>c. c \<noteq> CHR ''='') pair;
          v = drop (length n + 1) pair
      in set_key n v jar)"

text \<open>\<open>String.prototype.split\<close> with a separator of one character.\<close>

fun split_on :: "char \<Rightarrow> string \<Rightarrow> string list" where
  "split_on sep [] = [[]]"
| "split_on sep (c # cs) =
     (if c = sep then [] # split_on sep cs
      else (case split_on sep cs of p # ps \<Rightarrow> (c # p) # ps | [] \<Rightarrow> [[c]]))"

text \<open>\<open>String.prototype.indexOf\<close>: the first position at which \<open>t\<close> starts in \<open>s\<close>,
  or \<open>-1\<close>.\<close>

fun index_from :: "nat \<Rightarrow> string \<Rightarrow> string \<Rightarrow> int" where
  "index_from i [] t = (if t = [] then int i else - 1)"
| "index_from i (c # cs) t =
     (if prefix t (c # cs) then int i else index_from (i + 1) cs t)"

definition indexOf :: "string \<Rightarrow> string \<Rightarrow> int" where
  "indexOf s t = index_from 0 s t"

subsection \<open>Markup the controller writes\<close>

definition spinner_markup :: string where
  \<open>spinner_markup =
     ''<div class="sk-wave">\<newline>'' @
     ''        <div class="sk-rect sk-rect1"></div>\<newline>'' @
     ''        <div class="sk-rect sk-rect2"></div>\<newline>'' @
     ''        <div class="sk-rect sk-rect3"></div>\<newline>'' @
     ''        <div class="sk-rect sk-rect4"></div>\<newline>'' @
     ''        <div class="sk-rect sk-rect5"></div>\<newline>'' @
     ''      </div>''\<close>

definition fallback_message :: string where
  \<open>fallback_message =
     ''<h1>Data is not available yet.</h1>\<newline>'' @
     ''<div class="error">\<newline>'' @
     ''  <p>\<newline>'' @
     ''    <strong>Please follow these steps to get the latest data:</strong>\<newline>'' @
     ''  </p>\<newline>'' @
     ''  <p>\<newline>'' @
     ''    <ol>\<newline>'' @
     ''      <li>\<newline>'' @
     ''        Open a command line.\<newline>'' @
     ''      </li>\<newline>'' @
     ''      <li>\<newline>'' @
     ''        Change to the root directory of this project:<br />\<newline>'' @
     ''        <code>cd /path/to/student-growth</code>\<newline>'' @
     ''      </li>\<newline>'' @
     ''      <li>\<newline>'' @
     ''        Download the latest data set using Python:<br />\<newline>'' @
     ''        <code>python3 bin/download.py</code>\<newline>'' @
     ''      </li>\<newline>'' @
     ''      <li>\<newline>'' @
     ''        Click "Refresh" to start the visualization.\<newline>'' @
     ''      </li>\<newline>'' @
     ''    </ol>\<newline>'' @
     ''  </p>\<newline>'' @
     ''  <p>\<newline>'' @
     ''    <button onclick="window.location.reload()">Refresh</button>\<newline>'' @
     ''  </p>\<newline>'' @
     ''</div>''\<close>

text \<open>
  The manifest, as the JSON of \<open>Global.INFO_FILE\<close> is read: four strings and the
  attributes, an object from names to arrays of strings. \<open>hasOwnProperty\<close> on it is
  the lookup of the name (no attribute is taken to be named \<open>hasOwnProperty\<close> itself).
\<close>

record manifest =
  title :: string
  author :: string
  url :: string
  "file" :: string
  attributes :: "string \<rightharpoonup> string list"

definition info_markup :: "manifest \<Rightarrow> string" where
  \<open>info_markup mf =
     ''<h1>'' @ title mf @ ''</h1>\<newline>'' @
     ''<p>\<newline>'' @
     ''  Publisher: '' @ author mf @ ''<br />\<newline>'' @
     ''  <a href="'' @ url mf @ ''" target="_blank">Download source data</a>\<newline>'' @
     ''</p>''\<close>

text \<open>The two nested loops that build the markup of the controls in \<open>output\<close>.\<close>

fun options_markup :: "string list \<Rightarrow> string \<Rightarrow> string" where
  \<open>options_markup [] output = output\<close>
| \<open>options_markup (attr # rest) output =
     options_markup rest
       (output @ ''<option value="'' @ attr @ ''">'' @ attr @ ''</option>'')\<close>

fun controls_markup :: "(string \<rightharpoonup> string list) \<Rightarrow> string list \<Rightarrow> string \<Rightarrow> string" where
  \<open>controls_markup atts [] output = output\<close>
| \<open>controls_markup atts (key # keys) output =
     (case atts key of
        None \<Rightarrow> controls_markup atts keys output
      | Some vals \<Rightarrow>
          controls_markup atts keys
            (options_markup vals
               (output @ ''<select name="'' @ key @ ''" class="controls__'' @ key @ ''">'')
             @ ''</select> ''))\<close>

text \<open>
  The markup is assigned as the inner HTML of the controls panel, and the controls of
  the page are the \<open>select\<close> elements the browser parses from it. The values of the
  manifest are written into the markup as they are, with nothing escaped.

  \<open>select_markup\<close> spells an element as the controller would; \<open>controls_of\<close> lists the
  elements the manifest calls for, one for each recognised name it has, so that what the
  browser parses can be compared with them.
\<close>

definition option_markup :: "option_el \<Rightarrow> string" where
  \<open>option_markup p = ''<option value="'' @ opt_value p @ ''">'' @ opt_text p @ ''</option>''\<close>

definition select_markup :: "select_el \<Rightarrow> string" where
  \<open>select_markup s =
     ''<select name="'' @ sel_name s @ ''" class="'' @ sel_class s @ ''">'' @
     concat (map option_markup (sel_options s)) @ ''</select> ''\<close>

definition select_of :: "string \<Rightarrow> string list \<Rightarrow> select_el" where
  "select_of key vals =
     \<lparr>sel_name = key, sel_class = ''controls__'' @ key,
      sel_options = map (\<lambda>attr. \<lparr>opt_value = attr, opt_text = attr\<rparr>) vals,
      sel_index = 0, on_change = 0\<rparr>"


subsection \<open>The browser\<close>

text \<open>
  What a browser makes of markup assigned as inner HTML is a parameter of the model:
  a function from the markup to the \<open>select\<close> elements of the parsed content, in
  document order, none of them with a handler bound and each with the selection of a
  fresh element.
\<close>

type_synonym browser = "string \<Rightarrow> select_el list"

text \<open>
  A string is plain when it has none of the characters that end an attribute value or
  a text or start a tag or a character reference (the double quote, \<open><\<close>, \<open>&\<close>),
  and none that may be rewritten before the elements are built: \<open>>\<close>, since jQuery's
  \<open>html\<close> may expand a tag closed by \<open>/>\<close>, and carriage return and NUL, which
  the parser replaces or drops. An element is fresh when its strings are plain, its first
  option is the selected one and no handler is bound to it.
\<close>

definition plain :: "string \<Rightarrow> bool" where
  "plain s \<longleftrightarrow>
     set s \<inter> {CHR ''<'', CHR ''>'', CHR 0x22, CHR ''&'', CHR 0x0D, CHR 0x00} = {}"




text \<open>
  The browser of the examples. It reads markup of the shape the controller writes: a
  sequence of \<open>select\<close> elements with the attributes \<open>name\<close> and \<open>class\<close>, each
  holding \<open>option\<close> elements with the attribute \<open>value\<close> and a text. As in HTML, a
  double-quoted attribute value ends at the next double quote and a text at the next
  \<open><\<close>. Reading stops where the markup departs from that shape.
\<close>

definition after :: "string \<Rightarrow> string \<Rightarrow> string option" where
  "after p s = (if prefix p s then Some (drop (length p) s) else None)"

definition until_char :: "char \<Rightarrow> string \<Rightarrow> (string \<times> string) option" where
  "until_char c s =
     (if c \<in> set s
      then Some (takeWhile (\<lambda>x. x \<noteq> c) s, drop 1 (dropWhile (\<lambda>x. x \<noteq> c) s))
      else None)"

text \<open>An attribute: the text up to its opening quote, then its value up to the closing
  quote.\<close>

definition read_attr :: "string \<Rightarrow> string \<Rightarrow> (string \<times> string) option" where
  "read_attr lit s =
     (case after lit s of None \<Rightarrow> None | Some s1 \<Rightarrow> until_char (CHR 0x22) s1)"

definition read_option :: "string \<Rightarrow> (option_el \<times> string) option" where
  \<open>read_option s =
     (case read_attr ''<option value="'' s of
        None \<Rightarrow> None
      | Some (v, s1) \<Rightarrow>
         (case after ''>'' s1 of
            None \<Rightarrow> None
          | Some s2 \<Rightarrow>
             (case after ''</option>'' (dropWhile (\<lambda>x. x \<noteq> CHR ''<'') s2) of
                None \<Rightarrow> None
              | Some s3 \<Rightarrow>
                  Some (\<lparr>opt_value = v,
                         opt_text = takeWhile (\<lambda>x. x \<noteq> CHR ''<'') s2\<rparr>, s3))))\<close>

function read_options :: "string \<Rightarrow> option_el list \<times> string" where
  "read_options s =
     (case read_option s of
        None \<Rightarrow> ([], s)
      | Some (p, r) \<Rightarrow> (let (ps, r') = read_options r in (p # ps, r')))"
  by pat_completeness auto
termination
proof (relation "measure length")
  show "wf (measure length)" by simp
next
  fix s :: string and x p r
  assume "read_option s = Some x" and "(p, r) = x"
  then have "read_option s = Some (p, r)" by simp
  then obtain v s1 s2 where
    a1: "read_attr (''<option value='' @ [CHR 0x22]) s = Some (v, s1)"
    and a2: "after ''>'' s1 = Some s2"
    and a3: "after ''</option>'' (dropWhile (\<lambda>x. x \<noteq> CHR ''<'') s2) = Some r"
    by (auto simp add: read_option_def split: option.splits)
  have "length r \<le> length (dropWhile (\<lambda>x. x \<noteq> CHR ''<'') s2)"
    using a3 by (auto simp add: after_def split: if_splits)
  also have "\<dots> \<le> length s2" by (rule length_dropWhile_le)
  also have "\<dots> < length s1"
    using a2 by (auto simp add: after_def prefix_def split: if_splits)
  also have "\<dots> \<le> length s"
  proof -
    from a1 obtain t where t: "after (''<option value='' @ [CHR 0x22]) s = Some t"
      and u: "until_char (CHR 0x22) t = Some (v, s1)"
      by (auto simp add: read_attr_def split: option.splits)
    have "length s1 \<le> length (dropWhile (\<lambda>x. x \<noteq> CHR 0x22) t)"
      using u by (auto simp add: until_char_def split: if_splits)
    also have "\<dots> \<le> length t" by (rule length_dropWhile_le)
    also have "\<dots> \<le> length s" using t by (auto simp add: after_def split: if_splits)
    finally show ?thesis .
  qed
  finally show "(r, s) \<in> measure length" by simp
qed

declare read_options.simps [simp del]

definition read_select :: "string \<Rightarrow> (select_el \<times> string) option" where
  \<open>read_select s =
     (case read_attr ''<select name="'' s of
        None \<Rightarrow> None
      | Some (n, s1) \<Rightarrow>
         (case read_attr '' class="'' s1 of
            None \<Rightarrow> None
          | Some (c, s2) \<Rightarrow>
             (case after ''>'' s2 of
                None \<Rightarrow> None
              | Some s3 \<Rightarrow>
                 (case after ''</select> '' (snd (read_options s3)) of
                    None \<Rightarrow> None
                  | Some s4 \<Rightarrow>
                      Some (\<lparr>sel_name = n, sel_class = c,
                             sel_options = fst (read_options s3),
                             sel_index = 0, on_change = 0\<rparr>, s4)))))\<close>

function read_selects :: browser where
  "read_selects s =
     (case read_select s of
        None \<Rightarrow> []
      | Some (x, r) \<Rightarrow> x # read_selects r)"
  by pat_completeness auto
termination
proof (relation "measure length")
  show "wf (measure length)" by simp
next
  fix s :: string and y x r
  assume "read_select s = Some y" and "(x, r) = y"
  then have "read_select s = Some (x, r)" by simp
  then obtain n s1 c s2 s3 where
    a1: "read_attr (''<select name='' @ [CHR 0x22]) s = Some (n, s1)"
    and a2: "read_attr ('' class='' @ [CHR 0x22]) s1 = Some (c, s2)"
    and a3: "after ''>'' s2 = Some s3"
    and a4: "after ''</select> '' (snd (read_options s3)) = Some r"
    by (auto simp add: read_select_def split: option.splits)
  have ra: "length u \<le> length t" if "read_attr lit t = Some (w, u)" for lit t w u
  proof -
    from that obtain t1 where t: "after lit t = Some t1"
      and u: "until_char (CHR 0x22) t1 = Some (w, u)"
      by (auto simp add: read_attr_def split: option.splits)
    have "length u \<le> length (dropWhile (\<lambda>x. x \<noteq> CHR 0x22) t1)"
      using u by (auto simp add: until_char_def split: if_splits)
    also have "\<dots> \<le> length t1" by (rule length_dropWhile_le)
    also have "\<dots> \<le> length t" using t by (auto simp add: after_def split: if_splits)
    finally show ?thesis .
  qed
  have ro: "length (snd (read_options t)) \<le> length t" for t
  proof (induction t rule: read_options.induct)
    case (1 t)
    show ?case
    proof (cases "read_option t")
      case None
      then show ?thesis by (simp add: read_options.simps [of t])
    next
      case (Some q)
      obtain p u where q: "q = (p, u)" by (cases q)
      have "read_option t = Some (p, u)" using Some q by simp
      then obtain v t1 t2 where
        b1: "read_attr (''<option value='' @ [CHR 0x22]) t = Some (v, t1)"
        and b2: "after ''>'' t1 = Some t2"
        and b3: "after ''</option>'' (dropWhile (\<lambda>x. x \<noteq> CHR ''<'') t2) = Some u"
        by (auto simp add: read_option_def split: option.splits)
      have "length u \<le> length (dropWhile (\<lambda>x. x \<noteq> CHR ''<'') t2)"
        using b3 by (auto simp add: after_def split: if_splits)
      also have "\<dots> \<le> length t2" by (rule length_dropWhile_le)
      also have "\<dots> \<le> length t1" using b2 by (auto simp add: after_def split: if_splits)
      also have "\<dots> \<le> length t" using b1 by (rule ra)
      finally have "length u \<le> length t" .
      moreover have "length (snd (read_options u)) \<le> length u"
        using 1 [OF Some q [symmetric]] .
      ultimately show ?thesis
        using Some q by (auto simp add: read_options.simps [of t] split: prod.splits)
    qed
  qed
  have "length r \<le> length (snd (read_options s3))"
    using a4 by (auto simp add: after_def split: if_splits)
  also have "\<dots> \<le> length s3" by (rule ro)
  also have "\<dots> < length s2"
    using a3 by (auto simp add: after_def prefix_def split: if_splits)
  also have "\<dots> \<le> length s1" using a2 by (rule ra)
  also have "\<dots> \<le> length s" using a1 by (rule ra)
  finally show "(r, s) \<in> measure length" by simp
qed

declare read_selects.simps [simp del]

subsection \<open>Reading the controls\<close>

text \<open>\<open>$('.cls :selected').val()\<close>: the value of the first selected option below an
  element of class \<open>cls\<close>, \<open>undefined\<close> when there is none.\<close>

definition selected_options :: "select_el \<Rightarrow> option_el list" where
  "selected_options s =
     (if sel_index s < length (sel_options s) then [sel_options s ! sel_index s] else [])"

definition selected_val :: "page \<Rightarrow> string \<Rightarrow> jsval" where
  "selected_val pg cls =
     (case concat (map selected_options (filter (\<lambda>s. sel_class s = cls) (controls pg))) of
        [] \<Rightarrow> Undefined
      | p # _ \<Rightarrow> Str (opt_value p))"

section \<open>The map\<close>

text \<open>
  Modelled from the spec: \<open>VisualizationMap\<close>, whose module is not among the sources.
  It has the accessors \<open>data\<close>, \<open>key_x\<close> and \<open>key_y\<close> in the pattern of the chart's
  (no argument reads, one argument writes and returns the view itself) and a
  \<open>render\<close> under the contract of the chart's: it asks for the bound data and returns,
  and the map is drawn when the data arrives. The model records the selection \<open>render\<close>
  is called under, and in \<open>loading\<close> the requests whose data has not arrived.
\<close>

record vmap =
  map_priv_data :: jsval
  map_priv_key_x :: jsval
  map_priv_key_y :: jsval
  renders :: "(jsval \<times> jsval) list"
  loading :: "jsval list"

fun map_data :: "vmap \<Rightarrow> jsval list \<Rightarrow> vmap \<times> ret" where
  "map_data m [] = (m, RValue (map_priv_data m))"
| "map_data m (d # _) = (m\<lparr>map_priv_data := d\<rparr>, RThis)"

fun map_key_x :: "vmap \<Rightarrow> jsval list \<Rightarrow> vmap \<times> ret" where
  "map_key_x m [] = (m, RValue (map_priv_key_x m))"
| "map_key_x m (k # _) = (m\<lparr>map_priv_key_x := k\<rparr>, RThis)"

fun map_key_y :: "vmap \<Rightarrow> jsval list \<Rightarrow> vmap \<times> ret" where
  "map_key_y m [] = (m, RValue (map_priv_key_y m))"
| "map_key_y m (k # _) = (m\<lparr>map_priv_key_y := k\<rparr>, RThis)"

definition map_render :: "vmap \<Rightarrow> vmap" where
  "map_render m =
     m\<lparr>renders := renders m @ [(map_priv_key_x m, map_priv_key_y m)],
       loading := loading m @ [map_priv_data m]\<rparr>"

text \<open>The data of the oldest request arrives and the map is drawn. This is a task of
  its own: it runs after the handler that called \<open>render\<close> has returned.\<close>

definition map_loaded :: "vmap \<Rightarrow> vmap" where
  "map_loaded m = m\<lparr>loading := tl (loading m)\<rparr>"

section \<open>Controller\<close>

text \<open>
  The trace lists, in the order in which they return, the calls of the controller on
  its views and on the loading overlay; \<open>joins_waiting\<close> counts the callbacks
  registered with a \<open>$.when\<close> that has not resolved.
\<close>

datatype event = MapData | ChartData | MapRender | Update | CloseFullscreen

record 'n controller =
  page :: page
  vmap :: vmap
  chart :: "'n chart"
  dataFile :: jsval
  ctl_data :: "manifest option"
  trace :: "event list"
  joins_waiting :: nat

definition hidePage :: "'n controller \<Rightarrow> 'n controller" where
  "hidePage a = a\<lparr>page := (page a)\<lparr>wrapper_shown := False\<rparr>\<rparr>"

definition showPage :: "'n controller \<Rightarrow> 'n controller" where
  "showPage a = a\<lparr>page := (page a)\<lparr>wrapper_shown := True\<rparr>\<rparr>"

definition initSpinner :: "'n controller \<Rightarrow> 'n controller" where
  "initSpinner a =
     (let a = hidePage a
      in a\<lparr>page := (page a)\<lparr>fullscreen := (fullscreen (page a))
            \<lparr>content := spinner_markup, child_classes := add_class ''spinner'' [''sk-wave'']\<rparr>\<rparr>\<rparr>)"

text \<open>\<open>closeFullscreen\<close> starts the fade-out of the overlay and of what it contains.\<close>

definition closeFullscreen :: "'n controller \<Rightarrow> 'n controller" where
  "closeFullscreen a =
     a\<lparr>page := (page a)\<lparr>fullscreen := (fullscreen (page a))\<lparr>closing := True\<rparr>\<rparr>,
       trace := trace a @ [CloseFullscreen]\<rparr>"

text \<open>The persisted flag: the browser holds a cookie of the device-notice name.\<close>

definition notice_cookie_set :: "global \<Rightarrow> (string \<times> string) list \<Rightarrow> bool" where
  "notice_cookie_set g jar \<longleftrightarrow> DEVICE_NOTICE_COOKIE g \<in> set (map fst jar)"

text \<open>The test \<open>initDeviceNotice\<close> makes on the cookies, as a predicate of its own.\<close>

definition notice_found :: "global \<Rightarrow> (string \<times> string) list \<Rightarrow> bool" where
  "notice_found g jar =
     list_ex (\<lambda>c. indexOf c (DEVICE_NOTICE_COOKIE g @ ''='') \<ge> 0)
       (filter (\<lambda>c. length c > 0) (split_on (CHR '';'') (document_cookie jar)))"

definition initDeviceNotice :: "global \<Rightarrow> 'n controller \<Rightarrow> 'n controller" where
  "initDeviceNotice g a =
     (let cs = filter (\<lambda>c. length c > 0)
                 (split_on (CHR '';'') (document_cookie (cookies (page a))))
      in if list_ex (\<lambda>c. indexOf c (DEVICE_NOTICE_COOKIE g @ ''='') \<ge> 0) cs
         then a\<lparr>page := (page a)\<lparr>body_classes :=
                  add_class (DEVICE_NOTICE_CONFIRMED_CLASS g) (body_classes (page a))\<rparr>\<rparr>
         else a)"

definition hideDeviceNotice :: "global \<Rightarrow> 'n controller \<Rightarrow> 'n controller" where
  "hideDeviceNotice g a =
     (let a = a\<lparr>page := (page a)\<lparr>cookies :=
                  assign_cookie (DEVICE_NOTICE_COOKIE g @ ''=true'') (cookies (page a))\<rparr>\<rparr>
      in a\<lparr>page := (page a)\<lparr>body_classes :=
              add_class (DEVICE_NOTICE_CONFIRMED_CLASS g) (body_classes (page a))\<rparr>\<rparr>)"

text \<open>
  A chained call \<open>o.f(..).g(..)\<close>: \<open>g\<close> is called on what \<open>f\<close> returned, which must be
  the object; on a value that has no such method the call is a \<open>TypeError\<close>.
\<close>

definition chained :: "'o \<times> ret \<Rightarrow> ('o \<Rightarrow> 'o \<times> ret) \<Rightarrow> error + 'o \<times> ret" where
  "chained r f = (case r of (ob, RThis) \<Rightarrow> Inr (f ob) | (ob, RValue v) \<Rightarrow> Inl TypeError)"

definition update :: "'n controller \<Rightarrow> error + 'n controller" where
  "update a =
     (let nationality = selected_val (page a) ''controls__nationality'';
          sex = selected_val (page a) ''controls__sex'';
          kx = Str (js_string nationality @ '' '' @ js_string sex);
          ky = selected_val (page a) ''controls__semester''
      in and_then (chained (map_key_x (vmap a) [kx]) (\<lambda>m. map_key_y m [ky])) (\<lambda>(m, r).
         and_then (chained (key_x (chart a) [kx]) (\<lambda>c. key_y c [ky])) (\<lambda>(c, r).
         Inr (a\<lparr>vmap := map_render m, chart := c, trace := trace a @ [MapRender, Update]\<rparr>))))"

text \<open>\<open>$('.controls__key').on('change', ..)\<close> binds a handler to every element of
  that class.\<close>

fun bind_change :: "string list \<Rightarrow> select_el list \<Rightarrow> select_el list" where
  "bind_change [] ss = ss"
| "bind_change (key # keys) ss =
     bind_change keys
       (map (\<lambda>s. if sel_class s = ''controls__'' @ key
                  then s\<lparr>on_change := on_change s + 1\<rparr> else s) ss)"

text \<open>
  \<open>$.when(x, y, z).done(f)\<close>: jQuery waits for those of the values that have a
  \<open>promise\<close> or a \<open>then\<close> method and calls \<open>f\<close> when all of them are resolved; when
  no value has one, it calls \<open>f\<close> at once. A view has neither method (the class
  \<open>Chart\<close> defines none, and the spec lists none for the map), and neither has
  \<open>undefined\<close>, \<open>null\<close>, a string or an array.
\<close>

fun thenable :: "ret \<Rightarrow> bool" where
  "thenable RThis = False"
| "thenable (RValue v) = False"

definition when_done ::
  "ret list \<Rightarrow> ('n controller \<Rightarrow> 'n controller) \<Rightarrow> 'n controller \<Rightarrow> 'n controller" where
  "when_done rs f a =
     (if list_ex thenable rs then a\<lparr>joins_waiting := joins_waiting a + 1\<rparr> else f a)"

text \<open>
  The callback of a successful fetch. The values handed to \<open>$.when\<close> are what the two
  data accessors return and what \<open>update\<close> returns, which is \<open>undefined\<close>. The title
  assigned is made of the title as \<open>document.title\<close> reads it.
\<close>

definition done_cb ::
  "global \<Rightarrow> browser \<Rightarrow> manifest \<Rightarrow> 'n controller \<Rightarrow> error + 'n controller" where
  "done_cb g br mf a =
     (let a = a\<lparr>ctl_data := Some mf\<rparr>;
          a = a\<lparr>dataFile := Str (file mf)\<rparr>;
          a = a\<lparr>page := (page a)\<lparr>data_info := info_markup mf\<rparr>\<rparr>;
          atts = [''nationality'', ''sex'', ''semester''];
          output = controls_markup (attributes mf) atts [];
          a = a\<lparr>page := (page a)\<lparr>controls_inner := output, controls := br output\<rparr>\<rparr>;
          a = a\<lparr>page := (page a)\<lparr>controls := bind_change atts (controls (page a))\<rparr>\<rparr>;
          a = initDeviceNotice g a;
          (m, r1) = map_data (vmap a) [dataFile a];
          a = a\<lparr>vmap := m, trace := trace a @ [MapData]\<rparr>;
          (c, r2) = data (chart a) [dataFile a];
          a = a\<lparr>chart := c, trace := trace a @ [ChartData]\<rparr>
      in and_then (update a) (\<lambda>a.
         let a = when_done [r1, r2, RValue Undefined] closeFullscreen a;
             a = a\<lparr>page := (page a)\<lparr>confirm_handlers := confirm_handlers (page a) + 1\<rparr>\<rparr>
         in Inr (a\<lparr>page := (page a)\<lparr>title_text :=
                     document_title (page a) @ '': '' @ title mf\<rparr>\<rparr>)))"

definition fail_cb :: "'n controller \<Rightarrow> 'n controller" where
  "fail_cb a =
     (let a = a\<lparr>page := (page a)\<lparr>data_info := fallback_message\<rparr>\<rparr>;
          a = a\<lparr>page := (page a)\<lparr>main_shown := False\<rparr>\<rparr>
      in closeFullscreen a)"

text \<open>
  \<open>getDataInformation\<close>, given what the request for the manifest comes back with:
  \<open>done\<close> or \<open>fail\<close>, then \<open>always\<close>. A callback that throws ends the chain.
\<close>

datatype response = Done manifest | Fail

definition getDataInformation ::
  "global \<Rightarrow> browser \<Rightarrow> response \<Rightarrow> 'n controller \<Rightarrow> error + 'n controller" where
  "getDataInformation g br resp a =
     (case resp of
        Done mf \<Rightarrow> and_then (done_cb g br mf a) (\<lambda>a. Inr (showPage a))
      | Fail \<Rightarrow> Inr (showPage (fail_cb a)))"

definition Controller_new ::
  "global \<Rightarrow> browser \<Rightarrow> vmap \<Rightarrow> 'n chart \<Rightarrow> page \<Rightarrow> response \<Rightarrow>
   error + 'n controller" where
  "Controller_new g br m c pg resp =
     getDataInformation g br resp
       (initSpinner \<lparr>page = pg, vmap = m, chart = c, dataFile = Str [], ctl_data = None,
                    trace = [], joins_waiting = 0\<rparr>)"

text \<open>The controls of the page after a successful load: parsed from the markup, then
  bound.\<close>

definition parsed_controls :: "browser \<Rightarrow> manifest \<Rightarrow> select_el list" where
  "parsed_controls br mf =
     bind_change [''nationality'', ''sex'', ''semester'']
       (br (controls_markup (attributes mf) [''nationality'', ''sex'', ''semester''] []))"


subsection \<open>What the user does\<close>


definition click_confirm :: "global \<Rightarrow> 'n controller \<Rightarrow> 'n controller" where
  "click_confirm g a = ((hideDeviceNotice g) ^^ confirm_handlers (page a)) a"

subsection \<open>Example inputs\<close>

definition example_global :: global where
  "example_global =
     \<lparr>DEVICE_NOTICE_COOKIE = ''device-notice'',
      DEVICE_NOTICE_CONFIRMED_CLASS = ''device-notice-confirmed''\<rparr>"

definition example_page :: page where
  "example_page =
     \<lparr>wrapper_shown = True,
      fullscreen = \<lparr>content = [], child_classes = [], closing = False\<rparr>,
      data_info = [], controls_inner = [], controls = [], confirm_handlers = 0,
      main_shown = True, body_classes = [], cookies = [], title_text = ''Students''\<rparr>"

definition example_map :: vmap where
  "example_map =
     \<lparr>map_priv_data = Arr [], map_priv_key_x = Null, map_priv_key_y = Null, renders = [],
      loading = []\<rparr>"

text \<open>The manifest of the example of the specification, and one that omits the
  nationality but has a value for the sex that closes its own \<open>select\<close> element and
  opens another.\<close>

definition example_manifest :: manifest where
  "example_manifest =
     \<lparr>title = ''Data'', author = ''Office'', url = ''https://example.org/data'',
      file = ''data.csv'',
      attributes = [''sex'' \<mapsto> [''m'', ''f''], ''semester'' \<mapsto> [''S1'', ''S2'']]\<rparr>"


definition example_controller :: "int controller" where
  "example_controller =
     initSpinner \<lparr>page = example_page, vmap = example_map, chart = Chart_new,
                  dataFile = Str [], ctl_data = None, trace = [], joins_waiting = 0\<rparr>"

definition with_cookies :: "(string \<times> string) list \<Rightarrow> 'n controller \<Rightarrow> 'n controller" where
  "with_cookies jar a = a\<lparr>page := (page a)\<lparr>cookies := jar\<rparr>\<rparr>"

text \<open>Rows of three semesters and two states, and a reading of their cells as numbers.\<close>

definition example_rows :: "row list" where
  "example_rows =
     [[[] \<mapsto> ''S1'', ''state'' \<mapsto> ''Bayern'', ''German f'' \<mapsto> ''5''],
      [[] \<mapsto> ''S1'', ''state'' \<mapsto> ''Berlin'', ''German f'' \<mapsto> ''1''],
      [[] \<mapsto> ''S2'', ''state'' \<mapsto> ''Bayern'', ''German f'' \<mapsto> ''7''],
      [[] \<mapsto> ''S2'', ''state'' \<mapsto> ''Berlin'', ''German f'' \<mapsto> ''9'']]"

definition example_num :: "string \<Rightarrow> int option" where
  "example_num s =
     (if s = ''1'' then Some 1 else if s = ''5'' then Some 5 else if s = ''7'' then Some 7
      else if s = ''9'' then Some 9 else None)"

definition example_chart :: "error + int chart \<times> dom" where
  "example_chart =
     and_then (init (Chart_new, \<lparr>has_container = True, elements = []\<rparr>))
       (\<lambda>(c, d). Inr (fst (key_y (fst (key_x c [Str ''German f''])) [Str ''S2'']), d))"

section \<open>Verification\<close>

subsection \<open>Sequencing\<close>

lemma and_then_Inr [simp]: "and_then (Inr x) f = f x"
  by (simp add: and_then_def)

lemma and_then_Inl [simp]: "and_then (Inl e) f = Inl e"
  by (simp add: and_then_def)

lemma chained_this [simp]: "chained (ob, RThis) f = Inr (f ob)"
  by (simp add: chained_def)

subsection \<open>Chart accessors\<close>

text \<open>
  Claim C8. The accessors \<open>data\<close>, \<open>key_x\<close> and \<open>key_y\<close> of every chart read with no
  argument and leave the chart as it is; with one argument \<open>v\<close> they store \<open>v\<close>, return
  the chart itself, and a following read returns exactly \<open>v\<close>.
\<close>

theorem accessors_get_set:
  "data c [] = (c, RValue (priv_data c)) \<and>
   key_x c [] = (c, RValue (priv_key_x c)) \<and>
   key_y c [] = (c, RValue (priv_key_y c)) \<and>
   data c [v] = (c\<lparr>priv_data := v\<rparr>, RThis) \<and>
   key_x c [v] = (c\<lparr>priv_key_x := v\<rparr>, RThis) \<and>
   key_y c [v] = (c\<lparr>priv_key_y := v\<rparr>, RThis) \<and>
   snd (data (fst (data c [v])) []) = RValue v \<and>
   snd (key_x (fst (key_x c [v])) []) = RValue v \<and>
   snd (key_y (fst (key_y c [v])) []) = RValue v \<and>
   fst (data (fst (data c [v])) []) = fst (data c [v]) \<and>
   fst (key_x (fst (key_x c [v])) []) = fst (key_x c [v]) \<and>
   fst (key_y (fst (key_y c [v])) []) = fst (key_y c [v])"
  by simp

subsection \<open>Chart.init\<close>

text \<open>A step whose reference is already set changes nothing.\<close>


lemma init_svg_fix: "priv_svg c \<noteq> None \<Longrightarrow> init_svg (c, d) = (c, d)"
  by (auto simp add: init_svg_def)

lemma init_gX_fix: "priv_gX c \<noteq> None \<Longrightarrow> init_gX (c, d) = Inr (c, d)"
  by (auto simp add: init_gX_def)

lemma init_gY_fix: "priv_gY c \<noteq> None \<Longrightarrow> init_gY (c, d) = Inr (c, d)"
  by (auto simp add: init_gY_def)

lemma init_g_fix: "priv_g c \<noteq> None \<Longrightarrow> init_g (c, d) = Inr (c, d)"
  by (auto simp add: init_g_def)

lemma init_title_fix: "priv_title c \<noteq> None \<Longrightarrow> init_title (c, d) = Inr (c, d)"
  by (auto simp add: init_title_def)

lemma init_subtitle_fix: "priv_subtitle c \<noteq> None \<Longrightarrow> init_subtitle (c, d) = Inr (c, d)"
  by (auto simp add: init_subtitle_def)

lemma defineSettings_fix:
  "priv_line c \<noteq> None \<Longrightarrow> priv_path c \<noteq> None \<Longrightarrow> defineSettings (c, d) = Inr (c, d)"
  by (auto simp add: defineSettings_def)

lemma init_fix: "initialised c \<Longrightarrow> init (c, d) = Inr (c, d)"
  by (simp add: init_def and_then_def initialised_def init_svg_fix init_gX_fix init_gY_fix
      init_g_fix init_title_fix init_subtitle_fix defineSettings_fix)


text \<open>Each step sets its own reference and no other field of the chart.\<close>


lemma upd_same:
  "priv_svg c = Some y \<Longrightarrow> c\<lparr>priv_svg := Some y\<rparr> = c"
  "priv_gX c = Some y \<Longrightarrow> c\<lparr>priv_gX := Some y\<rparr> = c"
  "priv_gY c = Some y \<Longrightarrow> c\<lparr>priv_gY := Some y\<rparr> = c"
  "priv_g c = Some y \<Longrightarrow> c\<lparr>priv_g := Some y\<rparr> = c"
  "priv_title c = Some y \<Longrightarrow> c\<lparr>priv_title := Some y\<rparr> = c"
  "priv_subtitle c = Some y \<Longrightarrow> c\<lparr>priv_subtitle := Some y\<rparr> = c"
  "priv_path c = Some y \<Longrightarrow> c\<lparr>priv_path := Some y\<rparr> = c"
  "priv_line c = Some u \<Longrightarrow> c\<lparr>priv_line := Some u\<rparr> = c"
  by (cases c; simp)+

lemma init_svg_step: "\<exists>e d'. init_svg (c, d) = (c\<lparr>priv_svg := Some e\<rparr>, d')"
  proof (cases "priv_svg c")
  case None
  then show ?thesis by (auto simp add: init_svg_def Let_def split: prod.splits)
next
  case (Some y)
  then have "init_svg (c, d) =  (c\<lparr>priv_svg := Some y\<rparr>, d)"
    by (simp add: init_svg_def upd_same)
  then show ?thesis by blast
qed

lemma init_gX_step:
  assumes "priv_svg c \<noteq> None" shows "\<exists>e d'. init_gX (c, d) = Inr (c\<lparr>priv_gX := Some e\<rparr>, d')"
  proof (cases "priv_gX c")
  case None
  then show ?thesis using assms by (auto simp add: init_gX_def Let_def split: prod.splits)
next
  case (Some y)
  then have "init_gX (c, d) = Inr (c\<lparr>priv_gX := Some y\<rparr>, d)"
    by (simp add: init_gX_def upd_same)
  then show ?thesis by blast
qed

lemma init_gY_step:
  assumes "priv_svg c \<noteq> None" shows "\<exists>e d'. init_gY (c, d) = Inr (c\<lparr>priv_gY := Some e\<rparr>, d')"
  proof (cases "priv_gY c")
  case None
  then show ?thesis using assms by (auto simp add: init_gY_def Let_def split: prod.splits)
next
  case (Some y)
  then have "init_gY (c, d) = Inr (c\<lparr>priv_gY := Some y\<rparr>, d)"
    by (simp add: init_gY_def upd_same)
  then show ?thesis by blast
qed

lemma init_g_step:
  assumes "priv_svg c \<noteq> None" shows "\<exists>e d'. init_g (c, d) = Inr (c\<lparr>priv_g := Some e\<rparr>, d')"
  proof (cases "priv_g c")
  case None
  then show ?thesis using assms by (auto simp add: init_g_def Let_def split: prod.splits)
next
  case (Some y)
  then have "init_g (c, d) = Inr (c\<lparr>priv_g := Some y\<rparr>, d)"
    by (simp add: init_g_def upd_same)
  then show ?thesis by blast
qed

lemma init_title_step:
  assumes "priv_svg c \<noteq> None" shows "\<exists>e d'. init_title (c, d) = Inr (c\<lparr>priv_title := Some e\<rparr>, d')"
  proof (cases "priv_title c")
  case None
  then show ?thesis using assms by (auto simp add: init_title_def Let_def split: prod.splits)
next
  case (Some y)
  then have "init_title (c, d) = Inr (c\<lparr>priv_title := Some y\<rparr>, d)"
    by (simp add: init_title_def upd_same)
  then show ?thesis by blast
qed

lemma init_subtitle_step:
  assumes "priv_svg c \<noteq> None"
  shows "\<exists>e d'. init_subtitle (c, d) = Inr (c\<lparr>priv_subtitle := Some e\<rparr>, d')"
  proof (cases "priv_subtitle c")
  case None
  then show ?thesis using assms by (auto simp add: init_subtitle_def Let_def split: prod.splits)
next
  case (Some y)
  then have "init_subtitle (c, d) = Inr (c\<lparr>priv_subtitle := Some y\<rparr>, d)"
    by (simp add: init_subtitle_def upd_same)
  then show ?thesis by blast
qed

lemma defineSettings_step:
  "priv_g c \<noteq> None \<Longrightarrow>
   \<exists>p d'. defineSettings (c, d) = Inr (c\<lparr>priv_line := Some (), priv_path := Some p\<rparr>, d')"
proof -
  assume g: "priv_g c \<noteq> None"
  let ?c = "if priv_line c = None then c\<lparr>priv_line := Some ()\<rparr> else c"
  have l: "?c = c\<lparr>priv_line := Some ()\<rparr>"
    by (cases "priv_line c") (simp_all add: upd_same)
  show ?thesis
  proof (cases "priv_path c")
    case None
    obtain y where y: "priv_g c = Some y" using g by auto
    obtain d' p where a: "append_el y ''path'' d = (d', p)" by (cases "append_el y ''path'' d")
    have "defineSettings (c, d) = Inr (?c\<lparr>priv_path := Some p\<rparr>, d')"
      using None y a by (simp add: defineSettings_def Let_def)
    then have "defineSettings (c, d) = Inr (c\<lparr>priv_line := Some (), priv_path := Some p\<rparr>, d')"
      using l by simp
    then show ?thesis by blast
  next
    case (Some p)
    then have "defineSettings (c, d) = Inr (?c, d)"
      by (simp add: defineSettings_def Let_def)
    also have "?c = c\<lparr>priv_line := Some (), priv_path := Some p\<rparr>"
      using Some by (simp add: l upd_same)
    finally show ?thesis by blast
  qed
qed

lemma init_succeeds: "\<exists>c' d'. init (c, d) = Inr (c', d') \<and> initialised c'"
proof -
  obtain e1 d1 where s1: "init_svg (c, d) = (c\<lparr>priv_svg := Some e1\<rparr>, d1)"
    using init_svg_step by blast
  let ?c1 = "c\<lparr>priv_svg := Some e1\<rparr>"
  obtain e2 d2 where s2: "init_gX (?c1, d1) = Inr (?c1\<lparr>priv_gX := Some e2\<rparr>, d2)"
    using init_gX_step [of ?c1 d1] by auto
  let ?c2 = "?c1\<lparr>priv_gX := Some e2\<rparr>"
  obtain e3 d3 where s3: "init_gY (?c2, d2) = Inr (?c2\<lparr>priv_gY := Some e3\<rparr>, d3)"
    using init_gY_step [of ?c2 d2] by auto
  let ?c3 = "?c2\<lparr>priv_gY := Some e3\<rparr>"
  obtain e4 d4 where s4: "init_g (?c3, d3) = Inr (?c3\<lparr>priv_g := Some e4\<rparr>, d4)"
    using init_g_step [of ?c3 d3] by auto
  let ?c4 = "?c3\<lparr>priv_g := Some e4\<rparr>"
  obtain e5 d5 where s5: "init_title (?c4, d4) = Inr (?c4\<lparr>priv_title := Some e5\<rparr>, d5)"
    using init_title_step [of ?c4 d4] by auto
  let ?c5 = "?c4\<lparr>priv_title := Some e5\<rparr>"
  obtain e6 d6 where s6: "init_subtitle (?c5, d5) = Inr (?c5\<lparr>priv_subtitle := Some e6\<rparr>, d6)"
    using init_subtitle_step [of ?c5 d5] by auto
  let ?c6 = "?c5\<lparr>priv_subtitle := Some e6\<rparr>"
  obtain p d7 where s7:
    "defineSettings (?c6, d6) = Inr (?c6\<lparr>priv_line := Some (), priv_path := Some p\<rparr>, d7)"
    using defineSettings_step [of ?c6 d6] by auto
  have "init (c, d) = Inr (?c6\<lparr>priv_line := Some (), priv_path := Some p\<rparr>, d7)"
    by (simp add: init_def and_then_def s1 s2 s3 s4 s5 s6 s7)
  moreover have "initialised (?c6\<lparr>priv_line := Some (), priv_path := Some p\<rparr>)"
    by (simp add: initialised_def)
  ultimately show ?thesis by blast
qed


lemma init_new_tags:
  "\<exists>c' d'. init (Chart_new, d) = Inr (c', d') \<and>
     map tag (elements d') = map tag (elements d) @
       (if has_container d then [''svg'', ''g'', ''g'', ''g'', ''text'', ''text'', ''path''] else [])"
  by (simp add: init_def init_svg_def init_gX_def init_gY_def init_g_def
       init_title_def init_subtitle_def defineSettings_def Chart_new_def Let_def
       d3_select_def append_el_def set_attrs_def set_style_def update_el_def map_update)

text \<open>
  Claim C7. \<open>init\<close> never throws and leaves every guarded reference set; called again
  on its own result it returns that result unchanged, chart and document, so nothing
  is created twice. On a new chart the first call creates, in this order, the svg
  surface, the two axis groups, the graphics group, the title, the subtitle and the
  path (nothing when the page has no chart container).
\<close>

theorem init_idempotent:
  "(\<exists>c' d'. init (c, d) = Inr (c', d') \<and> initialised c' \<and> init (c', d') = Inr (c', d')) \<and>
   (\<exists>c' d'. init (Chart_new :: 'n chart, d0) = Inr (c', d') \<and>
      map tag (elements d') = map tag (elements d0) @
        (if has_container d0
         then [''svg'', ''g'', ''g'', ''g'', ''text'', ''text'', ''path''] else []))"
proof -
  obtain c' d' where "init (c, d) = Inr (c', d')" and "initialised c'"
    using init_succeeds by blast
  then have "init (c, d) = Inr (c', d') \<and> initialised c' \<and> init (c', d') = Inr (c', d')"
    by (simp add: init_fix)
  then show ?thesis using init_new_tags by blast
qed

subsection \<open>Controller.update\<close>

lemma update_eq:
  "update a =
     Inr (a\<lparr>vmap := map_render ((vmap a)
             \<lparr>map_priv_key_x := Str (js_string (selected_val (page a) ''controls__nationality'')
                 @ '' '' @ js_string (selected_val (page a) ''controls__sex'')),
              map_priv_key_y := selected_val (page a) ''controls__semester''\<rparr>),
           chart := (chart a)
             \<lparr>priv_key_x := Str (js_string (selected_val (page a) ''controls__nationality'')
                 @ '' '' @ js_string (selected_val (page a) ''controls__sex'')),
              priv_key_y := selected_val (page a) ''controls__semester''\<rparr>,
           trace := trace a @ [MapRender, Update]\<rparr>)"
  by (simp add: update_def Let_def)

text \<open>
  Claim C1. Every call of \<open>update\<close> returns normally. With \<open>n\<close>, \<open>s\<close> and \<open>t\<close> the
  values of the nationality, sex and semester controls, \<open>key_x\<close> is the string of
  \<open>n\<close>, one space, the string of \<open>s\<close> (a string value is its own string), \<open>key_y\<close> is
  \<open>t\<close>, and both reach the chart and the map through their \<open>key_x\<close> and \<open>key_y\<close>
  setters, the map being rendered after that.
\<close>

theorem update_composes_keys:
  "\<exists>a'. update a = Inr a' \<and>
     priv_key_x (chart a') =
       Str (js_string (selected_val (page a) ''controls__nationality'') @ '' '' @
            js_string (selected_val (page a) ''controls__sex'')) \<and>
     priv_key_y (chart a') = selected_val (page a) ''controls__semester'' \<and>
     map_priv_key_x (vmap a') = priv_key_x (chart a') \<and>
     map_priv_key_y (vmap a') = priv_key_y (chart a') \<and>
     chart a' =
       fst (key_y (fst (key_x (chart a) [priv_key_x (chart a')])) [priv_key_y (chart a')]) \<and>
     vmap a' =
       map_render (fst (map_key_y (fst (map_key_x (vmap a) [priv_key_x (chart a')]))
                          [priv_key_y (chart a')])) \<and>
     js_string (Str x) = x"
  by (simp add: update_eq map_render_def)

subsection \<open>The manifest cannot be fetched\<close>

lemma fail_eq:
  "getDataInformation g br Fail a =
     Inr (a\<lparr>page := (page a)\<lparr>data_info := fallback_message, main_shown := False,
                 fullscreen := (fullscreen (page a))\<lparr>closing := True\<rparr>,
                 wrapper_shown := True\<rparr>,
            trace := trace a @ [CloseFullscreen]\<rparr>)"
  by (simp add: getDataInformation_def fail_cb_def closeFullscreen_def showPage_def Let_def)

text \<open>
  Claim C2. When the fetch of the manifest fails, the data-info panel holds the fixed
  fallback message, the main content is hidden and the overlay is closed; the views are
  left as they were (no data is bound, no key is set, nothing is rendered), the controls
  are untouched, and the only call traced is the closing of the overlay.
\<close>

theorem fetch_failure_shows_fallback:
  "\<exists>a'. getDataInformation g br Fail a = Inr a' \<and>
     data_info (page a') = fallback_message \<and>
     \<not> main_shown (page a') \<and>
     closing (fullscreen (page a')) \<and>
     vmap a' = vmap a \<and> chart a' = chart a \<and> dataFile a' = dataFile a \<and>
     controls (page a') = controls (page a) \<and>
     trace a' = trace a @ [CloseFullscreen] \<and>
     take 35 fallback_message = ''<h1>Data is not available yet.</h1>''"
  by (simp add: fail_eq fallback_message_def)

subsection \<open>The manifest is fetched\<close>

lemma initDeviceNotice_eq:
  "initDeviceNotice g a =
     a\<lparr>page := (page a)\<lparr>body_classes :=
          (if notice_found g (cookies (page a))
           then add_class (DEVICE_NOTICE_CONFIRMED_CLASS g) (body_classes (page a))
           else body_classes (page a))\<rparr>\<rparr>"
  by (simp add: initDeviceNotice_def notice_found_def Let_def)

lemma when_done_now: "\<not> list_ex thenable rs \<Longrightarrow> when_done rs f a = f a"
  by (simp add: when_done_def)

lemma never_thenable: "\<not> thenable r"
  by (cases r) simp_all

text \<open>The state a successful fetch leads to, field by field.\<close>

lemma done_cb_eq:
  "done_cb g br mf a =
     Inr (a\<lparr>ctl_data := Some mf, dataFile := Str (file mf),
           page := (page a)
             \<lparr>data_info := info_markup mf,
              controls_inner :=
                controls_markup (attributes mf) [''nationality'', ''sex'', ''semester''] [],
              controls := parsed_controls br mf,
              body_classes :=
                (if notice_found g (cookies (page a))
                 then add_class (DEVICE_NOTICE_CONFIRMED_CLASS g) (body_classes (page a))
                 else body_classes (page a)),
              fullscreen := (fullscreen (page a))\<lparr>closing := True\<rparr>,
              confirm_handlers := confirm_handlers (page a) + 1,
              title_text := document_title (page a) @ '': '' @ title mf\<rparr>,
           vmap := map_render ((vmap a)
             \<lparr>map_priv_data := Str (file mf),
              map_priv_key_x :=
                Str (js_string (selected_val ((page a)\<lparr>controls := parsed_controls br mf\<rparr>)
                                  ''controls__nationality'') @ '' '' @
                     js_string (selected_val ((page a)\<lparr>controls := parsed_controls br mf\<rparr>)
                                  ''controls__sex'')),
              map_priv_key_y :=
                selected_val ((page a)\<lparr>controls := parsed_controls br mf\<rparr>)
                  ''controls__semester''\<rparr>),
           chart := (chart a)
             \<lparr>priv_data := Str (file mf),
              priv_key_x :=
                Str (js_string (selected_val ((page a)\<lparr>controls := parsed_controls br mf\<rparr>)
                                  ''controls__nationality'') @ '' '' @
                     js_string (selected_val ((page a)\<lparr>controls := parsed_controls br mf\<rparr>)
                                  ''controls__sex'')),
              priv_key_y :=
                selected_val ((page a)\<lparr>controls := parsed_controls br mf\<rparr>)
                  ''controls__semester''\<rparr>,
           trace := trace a @ [MapData, ChartData, MapRender, Update, CloseFullscreen]\<rparr>)"
  unfolding done_cb_def Let_def initDeviceNotice_eq
  by (simp add: update_eq closeFullscreen_def parsed_controls_def selected_val_def map_render_def
        when_done_def document_title_def
      del: bind_change.simps controls_markup.simps)

lemma load_ok: "\<exists>a'. getDataInformation g br (Done mf) a = Inr a'"
  by (simp add: getDataInformation_def done_cb_eq)

lemma load_trace:
  "getDataInformation g br (Done mf) a = Inr a' \<Longrightarrow>
   trace a' = trace a @ [MapData, ChartData, MapRender, Update, CloseFullscreen] \<and>
   joins_waiting a' = joins_waiting a"
  by (auto simp add: getDataInformation_def done_cb_eq showPage_def)


lemma load_views:
  "getDataInformation g br (Done mf) a = Inr a' \<Longrightarrow>
   map_priv_data (vmap a') = Str (file mf) \<and> priv_data (chart a') = Str (file mf) \<and>
   renders (vmap a') = renders (vmap a) @ [(map_priv_key_x (vmap a'), map_priv_key_y (vmap a'))] \<and>
   loading (vmap a') = loading (vmap a) @ [Str (file mf)] \<and>
   priv_key_x (chart a') = map_priv_key_x (vmap a') \<and>
   priv_key_y (chart a') = map_priv_key_y (vmap a') \<and>
   closing (fullscreen (page a')) \<and> wrapper_shown (page a')"
  by (auto simp add: getDataInformation_def done_cb_eq showPage_def map_render_def)


text \<open>
  Claim C9 is not kept by the code. Of the three values handed to \<open>$.when\<close> two are the
  views and the third is \<open>undefined\<close>; none can be waited for, so the overlay is closed
  within the callback of the fetch itself. When a successful load returns, the calls
  made are the data bind of the map, the data bind of the chart, the first \<open>update\<close>
  with its render of the map, and the closing of the overlay; the closing has started
  and no join is left waiting, while the data the render of the first \<open>update\<close> asked
  for has not arrived, so that the map is not drawn yet.
\<close>

theorem overlay_closes_while_map_loads:
  "\<exists>a'. getDataInformation g br (Done mf) a = Inr a' \<and>
     trace a' = trace a @ [MapData, ChartData, MapRender, Update, CloseFullscreen] \<and>
     closing (fullscreen (page a')) \<and>
     joins_waiting a' = joins_waiting a \<and>
     loading (vmap a') = loading (vmap a) @ [Str (file mf)] \<and>
     loading (vmap a') \<noteq> [] \<and>
     length (loading (map_loaded (vmap a'))) = length (loading (vmap a))"
proof -
  obtain a' where 1: "getDataInformation g br (Done mf) a = Inr a'"
    using load_ok [of g br mf a] ..
  note t = load_trace [OF 1]
  note v = load_views [OF 1]
  have l: "loading (vmap a') = loading (vmap a) @ [Str (file mf)]" using v by simp
  have c: "closing (fullscreen (page a'))" using v by simp
  have n: "loading (vmap a') \<noteq> []" unfolding l by simp
  have r: "length (loading (map_loaded (vmap a'))) = length (loading (vmap a))"
    unfolding map_loaded_def l by simp
  from 1 t [THEN conjunct1] c t [THEN conjunct2] l n r show ?thesis
    by (intro exI [of _ a'] conjI)
qed

subsection \<open>The document title\<close>

lemma space_ws [simp]: "ascii_ws (CHR '' '')"
  by (simp add: ascii_ws_def)

lemma colon_not_ws [simp]: "\<not> ascii_ws (CHR '':'')"
  by (simp add: ascii_ws_def)















subsection \<open>The controls\<close>





lemma select_markup_bound [simp]: "select_markup (s\<lparr>on_change := n\<rparr>) = select_markup s"
  by (simp add: select_markup_def)



lemma sel_name_select_of [simp]: "sel_name (select_of key vals) = key"
  by (simp add: select_of_def)




















text \<open>The elements a manifest of plain values calls for are fresh, so a browser reads
  them back from the markup the controller writes.\<close>

lemma plain_append [simp]: "plain (a @ b) \<longleftrightarrow> plain a \<and> plain b"
  by (auto simp add: plain_def)







subsection \<open>The device notice\<close>

lemma index_from_sublist: "index_from i s t \<ge> 0 \<longleftrightarrow> sublist t s"
  by (induction s arbitrary: i) (auto simp add: sublist_Cons_right)

lemma indexOf_sublist: "indexOf s t \<ge> 0 \<longleftrightarrow> sublist t s"
  by (simp add: indexOf_def index_from_sublist)

lemma split_on_not_Nil [simp]: "split_on sep s \<noteq> []"
  by (induction s) (auto split: list.splits)

lemma prefix_first_piece:
  "sep \<notin> set t \<Longrightarrow> prefix t s \<Longrightarrow> prefix t (hd (split_on sep s))"
proof (induction s arbitrary: t)
  case Nil
  then show ?case by simp
next
  case (Cons c cs)
  show ?case
  proof (cases t)
    case Nil
    then show ?thesis by simp
  next
    case (Cons x t')
    then have x: "x = c" and p: "prefix t' cs" and n: "sep \<notin> set t'" and ne: "c \<noteq> sep"
      using Cons.prems by auto
    obtain q qs where s: "split_on sep cs = q # qs"
      by (cases "split_on sep cs") simp_all
    have "prefix t' q" using Cons.IH [OF n p] s by simp
    then show ?thesis using Cons x ne s by simp
  qed
qed

lemma sublist_in_piece:
  "sublist t s \<Longrightarrow> sep \<notin> set t \<Longrightarrow> \<exists>p \<in> set (split_on sep s). sublist t p"
proof (induction s)
  case Nil
  then show ?case by simp
next
  case (Cons c cs)
  obtain q qs where s: "split_on sep cs = q # qs"
    by (cases "split_on sep cs") simp_all
  from Cons.prems(1) consider "prefix t (c # cs)" | "sublist t cs"
    by (auto simp add: sublist_Cons_right)
  then show ?case
  proof cases
    case 1
    have "prefix t (hd (split_on sep (c # cs)))"
      using prefix_first_piece [OF Cons.prems(2) 1] .
    then have "sublist t (hd (split_on sep (c # cs)))" by (rule prefix_imp_sublist)
    moreover have "hd (split_on sep (c # cs)) \<in> set (split_on sep (c # cs))"
      by (rule hd_in_set) (rule split_on_not_Nil)
    ultimately show ?thesis by blast
  next
    case 2
    then obtain p where p: "p \<in> set (split_on sep cs)" and sp: "sublist t p"
      using Cons.IH Cons.prems(2) by blast
    show ?thesis
    proof (cases "c = sep")
      case True
      then show ?thesis using p sp by auto
    next
      case False
      show ?thesis
      proof (cases "p = q")
        case True
        then have "sublist t (c # q)" using sp by (simp add: sublist_Cons_right)
        then show ?thesis using False s by auto
      next
        case False
        then have "p \<in> set qs" using p s by simp
        then show ?thesis using \<open>c \<noteq> sep\<close> s sp by auto
      qed
    qed
  qed
qed

lemma first_piece_prefix: "prefix (hd (split_on sep s)) s"
  by (induction s) (auto split: list.splits)

lemma piece_sublist: "p \<in> set (split_on sep s) \<Longrightarrow> sublist p s"
proof (induction s arbitrary: p)
  case Nil
  then show ?case by simp
next
  case (Cons c cs)
  obtain q qs where s: "split_on sep cs = q # qs"
    by (cases "split_on sep cs") simp_all
  have q: "sublist q cs" and qs: "\<And>r. r \<in> set qs \<Longrightarrow> sublist r cs"
    using Cons.IH s by simp_all
  show ?case
  proof (cases "c = sep")
    case True
    then have "p = [] \<or> p \<in> set (split_on sep cs)" using Cons.prems by simp
    then show ?thesis using Cons.IH by (auto simp add: sublist_Cons_right)
  next
    case False
    then have "p = c # q \<or> p \<in> set qs" using Cons.prems s by simp
    then show ?thesis
    proof
      assume "p = c # q"
      moreover have "prefix q cs" using first_piece_prefix [of sep cs] s by simp
      ultimately have "prefix p (c # cs)" by simp
      then show ?thesis by (rule prefix_imp_sublist)
    next
      assume "p \<in> set qs"
      then show ?thesis using qs by (simp add: sublist_Cons_right)
    qed
  qed
qed


lemma sublist_join: "x \<in> set xs \<Longrightarrow> sublist x (join_with sep xs)"
proof (induction sep xs rule: join_with.induct)
  case (1 sep)
  then show ?case by simp
next
  case (2 sep y)
  then show ?case by simp
next
  case (3 sep y z zs)
  show ?case
  proof (cases "x = y")
    case True
    then show ?thesis by simp
  next
    case False
    then have "sublist x (join_with sep (z # zs))" using 3 by simp
    then obtain ps ss where "join_with sep (z # zs) = ps @ x @ ss"
      by (auto simp add: sublist_def)
    then have "join_with sep (y # z # zs) = (y @ sep @ ps) @ x @ ss" by simp
    then show ?thesis unfolding sublist_def by blast
  qed
qed

lemma pair_in_cookie:
  assumes "(n, v) \<in> set jar"
  shows "sublist (n @ ''='') (document_cookie jar)"
proof -
  have "n @ ''='' @ v \<in> set (map (\<lambda>(n, v). n @ ''='' @ v) jar)"
    using assms by force
  then have "sublist (n @ ''='' @ v) (document_cookie jar)"
    unfolding document_cookie_def by (rule sublist_join)
  then obtain ps ss where "document_cookie jar = ps @ (n @ ''='' @ v) @ ss"
    by (auto simp add: sublist_def)
  then have "document_cookie jar = ps @ (n @ ''='') @ (v @ ss)" by simp
  then show ?thesis unfolding sublist_def by blast
qed

lemma found_iff:
  "notice_found g jar \<longleftrightarrow>
     (\<exists>p \<in> set (split_on (CHR '';'') (document_cookie jar)).
        sublist (DEVICE_NOTICE_COOKIE g @ ''='') p)"
  by (auto simp add: notice_found_def list_ex_iff indexOf_sublist)

lemma found_if_set:
  assumes "notice_cookie_set g jar" and "CHR '';'' \<notin> set (DEVICE_NOTICE_COOKIE g)"
  shows "notice_found g jar"
proof -
  obtain v where "(DEVICE_NOTICE_COOKIE g, v) \<in> set jar"
    using assms(1) by (auto simp add: notice_cookie_set_def)
  then have "sublist (DEVICE_NOTICE_COOKIE g @ ''='') (document_cookie jar)"
    by (rule pair_in_cookie)
  moreover have "CHR '';'' \<notin> set (DEVICE_NOTICE_COOKIE g @ ''='')"
    using assms(2) by simp
  ultimately show ?thesis
    unfolding found_iff by (rule sublist_in_piece)
qed

lemma not_found_without_text:
  assumes "indexOf (document_cookie jar) (DEVICE_NOTICE_COOKIE g @ ''='') < 0"
  shows "\<not> notice_found g jar"
proof
  assume "notice_found g jar"
  then obtain p where p: "p \<in> set (split_on (CHR '';'') (document_cookie jar))"
    and s: "sublist (DEVICE_NOTICE_COOKIE g @ ''='') p"
    unfolding found_iff by blast
  have "sublist p (document_cookie jar)" using p by (rule piece_sublist)
  with s have "sublist (DEVICE_NOTICE_COOKIE g @ ''='') (document_cookie jar)"
    unfolding sublist_def by (metis append.assoc)
  then show False using assms by (simp add: indexOf_sublist [symmetric])
qed

lemma set_key_has: "k \<in> fst ` set (set_key k v kvs)"
  by (induction kvs) (simp, force)

lemma in_add_class: "cls \<in> set (add_class cls classes)"
  by (simp add: add_class_def)

lemma add_class_keeps: "set classes \<subseteq> set (add_class cls classes)"
  by (auto simp add: add_class_def)

lemma add_class_only: "set (add_class cls classes) = insert cls (set classes)"
  by (auto simp add: add_class_def)

lemma assign_notice:
  assumes "CHR '';'' \<notin> set n" and "CHR ''='' \<notin> set n"
  shows "assign_cookie (n @ ''=true'') jar = set_key n ''true'' jar"
proof -
  have a: "\<And>x. x \<in> set n \<Longrightarrow> x \<noteq> CHR '';''" using assms(1) by blast
  have b: "\<And>x. x \<in> set n \<Longrightarrow> x \<noteq> CHR ''=''" using assms(2) by blast
  have "takeWhile (\<lambda>c. c \<noteq> CHR '';'') (n @ ''=true'') =
        n @ takeWhile (\<lambda>c. c \<noteq> CHR '';'') ''=true''"
    by (rule takeWhile_append2) (rule a)
  then have 1: "takeWhile (\<lambda>c. c \<noteq> CHR '';'') (n @ ''=true'') = n @ ''=true''" by simp
  have "takeWhile (\<lambda>c. c \<noteq> CHR ''='') (n @ ''=true'') =
        n @ takeWhile (\<lambda>c. c \<noteq> CHR ''='') ''=true''"
    by (rule takeWhile_append2) (rule b)
  then have 2: "takeWhile (\<lambda>c. c \<noteq> CHR ''='') (n @ ''=true'') = n" by simp
  show ?thesis by (simp add: assign_cookie_def Let_def 1 2)
qed

lemma hideDeviceNotice_cookie:
  assumes "CHR '';'' \<notin> set (DEVICE_NOTICE_COOKIE g)"
    and "CHR ''='' \<notin> set (DEVICE_NOTICE_COOKIE g)"
  shows "notice_cookie_set g (cookies (page (hideDeviceNotice g a)))"
  by (simp add: hideDeviceNotice_def Let_def assign_notice [OF assms] notice_cookie_set_def
        set_key_has del: map_map)

lemma hideDeviceNotice_class:
  "body_classes (page (hideDeviceNotice g a)) =
     add_class (DEVICE_NOTICE_CONFIRMED_CLASS g) (body_classes (page a))"
  by (simp add: hideDeviceNotice_def Let_def)

lemma load_body:
  "getDataInformation g br (Done mf) a = Inr a' \<Longrightarrow>
   body_classes (page a') =
     (if notice_found g (cookies (page a))
      then add_class (DEVICE_NOTICE_CONFIRMED_CLASS g) (body_classes (page a))
      else body_classes (page a)) \<and>
   confirm_handlers (page a') = Suc (confirm_handlers (page a))"
  by (auto simp add: getDataInformation_def done_cb_eq showPage_def)

lemma click_after_load:
  assumes "confirm_handlers (page a) = Suc n"
  shows "click_confirm g a = hideDeviceNotice g ((hideDeviceNotice g ^^ n) a)"
  by (simp add: click_confirm_def assms)

text \<open>
  Claim C6 fails as stated, in both directions. \<open>initDeviceNotice\<close> looks for the text
  of the cookie name followed by \<open>=\<close> anywhere in a cookie, so a cookie of another name
  that ends in the device-notice name puts the class on the body although the flag is
  not set and nothing was confirmed. And \<open>initDeviceNotice\<close> runs in the callback of
  a successful fetch only: when the fetch fails, a set flag adds no class.
\<close>

theorem device_notice_counterexample:
  "\<not> notice_cookie_set example_global [(''my-device-notice'', ''1'')] \<and>
   map_sum id (body_classes \<circ> page)
     (getDataInformation example_global read_selects (Done example_manifest)
        (with_cookies [(''my-device-notice'', ''1'')] example_controller)) =
     Inr [''device-notice-confirmed''] \<and>
   notice_cookie_set example_global [(''device-notice'', ''true'')] \<and>
   map_sum id (body_classes \<circ> page)
     (getDataInformation example_global read_selects Fail
        (with_cookies [(''device-notice'', ''true'')] example_controller)) = Inr []"
  by code_simp

text \<open>
  Claim C6, as amended, for a cookie name without \<open>;\<close> and \<open>=\<close>. After a successful
  load the class is on the body if the flag cookie was set at load; it is not on the
  body if it was not there before and \<open>document.cookie\<close> did not contain the name
  followed by \<open>=\<close>; classes of the body are kept; a click on the confirm button then
  sets the cookie and adds the class. \<open>hideDeviceNotice\<close> sets the cookie, adds the
  class and keeps the classes there are. A failed load leaves the classes of the body
  as they were.
\<close>

theorem device_notice_class:
  assumes "CHR '';'' \<notin> set (DEVICE_NOTICE_COOKIE g)"
    and "CHR ''='' \<notin> set (DEVICE_NOTICE_COOKIE g)"
  shows
    "(\<exists>a'. getDataInformation g br (Done mf) a = Inr a' \<and>
        (notice_cookie_set g (cookies (page a)) \<longrightarrow>
           DEVICE_NOTICE_CONFIRMED_CLASS g \<in> set (body_classes (page a'))) \<and>
        (indexOf (document_cookie (cookies (page a))) (DEVICE_NOTICE_COOKIE g @ ''='') < 0 \<and>
         DEVICE_NOTICE_CONFIRMED_CLASS g \<notin> set (body_classes (page a)) \<longrightarrow>
           DEVICE_NOTICE_CONFIRMED_CLASS g \<notin> set (body_classes (page a'))) \<and>
        set (body_classes (page a)) \<subseteq> set (body_classes (page a')) \<and>
        DEVICE_NOTICE_CONFIRMED_CLASS g \<in> set (body_classes (page (click_confirm g a'))) \<and>
        notice_cookie_set g (cookies (page (click_confirm g a')))) \<and>
     DEVICE_NOTICE_CONFIRMED_CLASS g \<in> set (body_classes (page (hideDeviceNotice g a))) \<and>
     notice_cookie_set g (cookies (page (hideDeviceNotice g a))) \<and>
     set (body_classes (page a)) \<subseteq> set (body_classes (page (hideDeviceNotice g a))) \<and>
     (\<exists>a'. getDataInformation g br Fail a = Inr a' \<and>
        body_classes (page a') = body_classes (page a))"
proof -
  let ?cls = "DEVICE_NOTICE_CONFIRMED_CLASS g"
  obtain a' where 1: "getDataInformation g br (Done mf) a = Inr a'" using load_ok by blast
  note b = load_body [OF 1]
  have p1: "notice_cookie_set g (cookies (page a)) \<longrightarrow> ?cls \<in> set (body_classes (page a'))"
    using b found_if_set [OF _ assms(1)] by (auto simp add: in_add_class)
  have p2: "indexOf (document_cookie (cookies (page a))) (DEVICE_NOTICE_COOKIE g @ ''='') < 0 \<and>
         ?cls \<notin> set (body_classes (page a)) \<longrightarrow> ?cls \<notin> set (body_classes (page a'))"
    using b not_found_without_text [of "cookies (page a)" g] by auto
  have p3: "set (body_classes (page a)) \<subseteq> set (body_classes (page a'))"
    using b add_class_keeps [of "body_classes (page a)" ?cls] by (auto split: if_splits)
  have c: "click_confirm g a' =
        hideDeviceNotice g ((hideDeviceNotice g ^^ confirm_handlers (page a)) a')"
    using b by (simp add: click_after_load)
  have p4: "?cls \<in> set (body_classes (page (click_confirm g a')))"
    unfolding c hideDeviceNotice_class by (rule in_add_class)
  have p5: "notice_cookie_set g (cookies (page (click_confirm g a')))"
    unfolding c by (rule hideDeviceNotice_cookie [OF assms])
  have h1: "?cls \<in> set (body_classes (page (hideDeviceNotice g a)))"
    unfolding hideDeviceNotice_class by (rule in_add_class)
  have h2: "notice_cookie_set g (cookies (page (hideDeviceNotice g a)))"
    by (rule hideDeviceNotice_cookie [OF assms])
  have h3: "set (body_classes (page a)) \<subseteq> set (body_classes (page (hideDeviceNotice g a)))"
    unfolding hideDeviceNotice_class by (rule add_class_keeps)
  have f: "\<exists>a'. getDataInformation g br Fail a = Inr a' \<and>
        body_classes (page a') = body_classes (page a)"
    by (simp add: fail_eq)
  from 1 p1 p2 p3 p4 p5 have
    "\<exists>a'. getDataInformation g br (Done mf) a = Inr a' \<and>
        (notice_cookie_set g (cookies (page a)) \<longrightarrow> ?cls \<in> set (body_classes (page a'))) \<and>
        (indexOf (document_cookie (cookies (page a))) (DEVICE_NOTICE_COOKIE g @ ''='') < 0 \<and>
         ?cls \<notin> set (body_classes (page a)) \<longrightarrow> ?cls \<notin> set (body_classes (page a'))) \<and>
        set (body_classes (page a)) \<subseteq> set (body_classes (page a')) \<and>
        ?cls \<in> set (body_classes (page (click_confirm g a'))) \<and>
        notice_cookie_set g (cookies (page (click_confirm g a')))"
    by (intro exI [of _ a'] conjI)
  with h1 h2 h3 f show ?thesis by (intro conjI)
qed


theorem device_notice_class_witness:
  "CHR '';'' \<notin> set (DEVICE_NOTICE_COOKIE example_global) \<and>
   CHR ''='' \<notin> set (DEVICE_NOTICE_COOKIE example_global) \<and>
   notice_cookie_set example_global [(''device-notice'', ''true'')] \<and>
   (\<exists>a'. getDataInformation example_global read_selects (Done example_manifest)
           (with_cookies [(''device-notice'', ''true'')] example_controller) = Inr a' \<and>
         ''device-notice-confirmed'' \<in> set (body_classes (page a'))) \<and>
   indexOf (document_cookie (cookies (page example_controller))) ''device-notice='' < 0 \<and>
   ''device-notice-confirmed'' \<notin> set (body_classes (page example_controller)) \<and>
   (\<exists>a'. getDataInformation example_global read_selects (Done example_manifest) example_controller = Inr a' \<and>
         ''device-notice-confirmed'' \<notin> set (body_classes (page a')))"
proof -
  let ?g = example_global
  let ?a = "with_cookies [(''device-notice'', ''true'')] example_controller"
  have h1: "CHR '';'' \<notin> set (DEVICE_NOTICE_COOKIE ?g)"
    and h2: "CHR ''='' \<notin> set (DEVICE_NOTICE_COOKIE ?g)"
    by (simp_all add: example_global_def)
  have n: "DEVICE_NOTICE_COOKIE ?g = ''device-notice''"
    and c: "DEVICE_NOTICE_CONFIRMED_CLASS ?g = ''device-notice-confirmed''"
    by (simp_all add: example_global_def)
  have s: "notice_cookie_set ?g (cookies (page ?a))"
    by (simp add: notice_cookie_set_def with_cookies_def n)
  have i: "indexOf (document_cookie (cookies (page example_controller)))
             (DEVICE_NOTICE_COOKIE ?g @ ''='') < 0"
    by (simp add: n example_controller_def initSpinner_def hidePage_def Let_def example_page_def
          document_cookie_def indexOf_def)
  have b: "DEVICE_NOTICE_CONFIRMED_CLASS ?g \<notin> set (body_classes (page example_controller))"
    by (simp add: example_controller_def initSpinner_def hidePage_def Let_def example_page_def)
  have 1: "\<exists>a'. getDataInformation ?g read_selects (Done example_manifest) ?a = Inr a' \<and>
         DEVICE_NOTICE_CONFIRMED_CLASS ?g \<in> set (body_classes (page a'))"
    using device_notice_class [OF h1 h2, of read_selects example_manifest ?a] s by blast
  have 2: "\<exists>a'. getDataInformation ?g read_selects (Done example_manifest) example_controller = Inr a' \<and>
         DEVICE_NOTICE_CONFIRMED_CLASS ?g \<notin> set (body_classes (page a'))"
    using device_notice_class [OF h1 h2, of read_selects example_manifest example_controller] i b
    by blast
  have s': "notice_cookie_set ?g [(''device-notice'', ''true'')]"
    by (simp add: notice_cookie_set_def n)
  from h1 h2 s' 1 i b 2 show ?thesis
    unfolding c by (simp add: n)
qed

subsection \<open>Chart.render\<close>

text \<open>The two loops over the rows, as a filter and a map.\<close>

lemma collect_points_eq:
  "collect_points num v kx rows (ps, length ps) =
     Inr (ps @ map (\<lambda>d. \<lparr>px = cell d [], py = to_number num (cell d kx)\<rparr>)
                (filter (\<lambda>d. strict_eq (cell d ''state'') v) rows),
          length ps + length (filter (\<lambda>d. strict_eq (cell d ''state'') v) rows))"
proof (induction rows arbitrary: ps)
  case Nil
  then show ?case by simp
next
  case (Cons d ds)
  show ?case
  proof (cases "strict_eq (cell d ''state'') v")
    case True
    let ?p = "\<lparr>px = cell d [], py = to_number num (cell d kx)\<rparr>"
    have "collect_points num v kx (d # ds) (ps, length ps) =
          collect_points num v kx ds (ps @ [?p], length (ps @ [?p]))"
      using True by (simp add: Let_def empty_point_def)
    then show ?thesis using True Cons [of "ps @ [?p]"] by simp
  next
    case False
    then show ?thesis using Cons [of ps] by simp
  qed
qed

lemma collect_dots_eq:
  "collect_dots v kx ky rows tmp =
     tmp @ map (\<lambda>d. \<lparr>x_of = cell d [], y_of = cell d kx, active = strict_eq (cell d []) ky\<rparr>)
             (filter (\<lambda>d. strict_eq (cell d ''state'') v) rows)"
  by (induction rows arbitrary: tmp) simp_all

lemma numbers_set: "set (numbers vs) = {x. Some x \<in> set vs}"
  by (induction vs rule: numbers.induct) auto

lemma Min_insert_ge:
  assumes "finite A" and "A \<noteq> {}" and "Min A \<le> (y::'a::linorder)"
  shows "Min (insert y A) = Min A"
proof -
  have "Min (insert y A) = min y (Min A)" using assms(1,2) by (rule Min_insert)
  then show ?thesis using assms(3) by (simp only: min_absorb2)
qed

lemma Max_insert_le:
  assumes "finite A" and "A \<noteq> {}" and "(y::'a::linorder) \<le> Max A"
  shows "Max (insert y A) = Max A"
proof -
  have "Max (insert y A) = max y (Max A)" using assms(1,2) by (rule Max_insert)
  then show ?thesis using assms(3) by (simp only: max_absorb2)
qed

lemma d3_min_from_eq: "d3_min_from m vs = Min (insert m (set (numbers vs)))"
proof (induction m vs rule: d3_min_from.induct)
  case (1 m)
  then show ?case by simp
next
  case (2 m vs)
  then show ?case by simp
next
  case (3 m x vs)
  let ?S = "set (numbers vs)"
  show ?case
  proof (cases "m > x")
    case True
    have a: "Min (insert x ?S) \<le> x" by simp
    have "Min (insert x ?S) \<le> m" by (rule order_trans [OF a]) (rule less_imp_le [OF True])
    then have "Min (insert m (insert x ?S)) = Min (insert x ?S)"
      by (intro Min_insert_ge) simp_all
    moreover have "d3_min_from m (Some x # vs) = Min (insert x ?S)" using True 3 by simp
    ultimately show ?thesis by (simp only: numbers.simps list.set)
  next
    case False
    have a: "Min (insert m ?S) \<le> m" by simp
    have b: "m \<le> x" using False by simp
    have "Min (insert m ?S) \<le> x" by (rule order_trans [OF a b])
    then have "Min (insert x (insert m ?S)) = Min (insert m ?S)"
      by (intro Min_insert_ge) simp_all
    moreover have "d3_min_from m (Some x # vs) = Min (insert m ?S)" using False 3 by simp
    ultimately show ?thesis by (simp only: numbers.simps list.set insert_commute)
  qed
qed

lemma d3_min_eq:
  "d3_min vs = (if numbers vs = [] then None else Some (Min (set (numbers vs))))"
  by (induction vs rule: d3_min.induct) (simp_all add: d3_min_from_eq)

lemma d3_max_from_eq: "d3_max_from m vs = Max (insert m (set (numbers vs)))"
proof (induction m vs rule: d3_max_from.induct)
  case (1 m)
  then show ?case by simp
next
  case (2 m vs)
  then show ?case by simp
next
  case (3 m x vs)
  let ?S = "set (numbers vs)"
  show ?case
  proof (cases "m < x")
    case True
    have a: "x \<le> Max (insert x ?S)" by simp
    have "m \<le> Max (insert x ?S)" by (rule order_trans [OF less_imp_le [OF True] a])
    then have "Max (insert m (insert x ?S)) = Max (insert x ?S)"
      by (intro Max_insert_le) simp_all
    moreover have "d3_max_from m (Some x # vs) = Max (insert x ?S)" using True 3 by simp
    ultimately show ?thesis by (simp only: numbers.simps list.set)
  next
    case False
    have a: "m \<le> Max (insert m ?S)" by simp
    have b: "x \<le> m" using False by simp
    have "x \<le> Max (insert m ?S)" by (rule order_trans [OF b a])
    then have "Max (insert x (insert m ?S)) = Max (insert m ?S)"
      by (intro Max_insert_le) simp_all
    moreover have "d3_max_from m (Some x # vs) = Max (insert m ?S)" using False 3 by simp
    ultimately show ?thesis by (simp only: numbers.simps list.set insert_commute)
  qed
qed

lemma d3_max_eq:
  "d3_max vs = (if numbers vs = [] then None else Some (Max (set (numbers vs))))"
  by (induction vs rule: d3_max.induct) (simp_all add: d3_max_from_eq)

lemma collect_points_all:
  "collect_points num v kx rows ([], 0) =
     Inr (map (\<lambda>d. \<lparr>px = cell d [], py = to_number num (cell d kx)\<rparr>) (rows_of v rows),
          length (rows_of v rows))"
  using collect_points_eq [of num v kx rows "[]"] by (simp add: rows_of_def)

lemma collect_dots_all:
  "collect_dots v kx ky rows [] =
     map (\<lambda>d. \<lparr>x_of = cell d [], y_of = cell d kx, active = strict_eq (cell d []) ky\<rparr>)
       (rows_of v rows)"
  by (simp add: collect_dots_eq rows_of_def)

lemma render_data_result:
  assumes "render_data num v rows (c, d) = Inr ((c', d'), dr)"
  shows "\<exists>kx. priv_key_x c = Str kx \<and>
     priv_x c' = Some (length (scales c)) \<and>
     priv_y c' = Some (Suc (length (scales c))) \<and>
     scales c' = scales c @
       [ScalePoint (ordinal_domain [] (map (\<lambda>d. cell d []) (rows_of v rows))) (0, priv_width c),
        ScaleLinear (d3_min (column num kx rows), d3_max (column num kx rows))
          (priv_height c, 0)] \<and>
     dr = \<lparr>line_data =
            map (\<lambda>d. \<lparr>px = cell d [], py = to_number num (cell d kx)\<rparr>) (rows_of v rows),
          dots =
            map (\<lambda>d. \<lparr>x_of = cell d [], y_of = cell d kx,
                       active = strict_eq (cell d []) (priv_key_y c)\<rparr>) (rows_of v rows)\<rparr>"
  using assms unfolding render_data_def
  by (auto simp add: Let_def collect_points_all collect_dots_all column_def comp_def
        split: option.splits jsval.splits if_splits)

lemma not_isl_Inr: "\<not> isl x \<Longrightarrow> \<exists>y. x = Inr y"
  by (cases x) simp_all

lemma example_chart_ok: "\<not> isl example_chart"
  by code_simp

lemma example_chart_fields:
  "map_sum id (priv_key_x \<circ> fst) example_chart = Inr (Str ''German f'')"
  "map_sum id (priv_height \<circ> fst) example_chart = Inr 330"
  "map_sum id (priv_width \<circ> fst) example_chart = Inr 590"
  by code_simp+

lemma example_render_ok:
  "\<not> isl (and_then example_chart (render example_num (Str ''Bayern'') (Parsed example_rows)))"
  by code_simp

text \<open>
  Claim C10. When \<open>render\<close> has drawn the parsed rows, the domain of the linear
  scale \<open>_y\<close> is the least and the greatest number of the active column over all the
  rows, whatever their \<open>state\<close> (\<open>undefined\<close> for both when no cell of the column is a
  number), while the points of the line, the dots and the domain of the point scale
  \<open>_x\<close> come from the rows whose \<open>state\<close> equals the label only, in the order of the
  CSV, with the row id read from the column whose header is the empty string.
\<close>

theorem render_scales_and_points:
  assumes "render num v (Parsed rows) (c, d) = Inr ((c', d'), dr)"
  shows "\<exists>kx xi yi. priv_key_x c = Str kx \<and> priv_x c' = Some xi \<and> priv_y c' = Some yi \<and>
     scales c' ! yi =
       ScaleLinear
         (if numbers (column num kx rows) = [] then None
          else Some (Min (set (numbers (column num kx rows)))),
          if numbers (column num kx rows) = [] then None
          else Some (Max (set (numbers (column num kx rows)))))
         (priv_height c, 0) \<and>
     scales c' ! xi =
       ScalePoint (ordinal_domain [] (map (\<lambda>r. cell r []) (rows_of v rows))) (0, priv_width c) \<and>
     dr = Some
       \<lparr>line_data =
          map (\<lambda>r. \<lparr>px = cell r [], py = to_number num (cell r kx)\<rparr>) (rows_of v rows),
        dots =
          map (\<lambda>r. \<lparr>x_of = cell r [], y_of = cell r kx,
                     active = strict_eq (cell r []) (priv_key_y c)\<rparr>) (rows_of v rows)\<rparr>"
proof -
  from assms obtain dr' where r: "render_data num v rows (c, d) = Inr ((c', d'), dr')"
    and dr: "dr = Some dr'"
    by (auto simp add: render_def and_then_def split: sum.splits)
  from render_data_result [OF r] obtain kx where
    k: "priv_key_x c = Str kx"
    and x: "priv_x c' = Some (length (scales c))"
    and y: "priv_y c' = Some (Suc (length (scales c)))"
    and s: "scales c' = scales c @
       [ScalePoint (ordinal_domain [] (map (\<lambda>d. cell d []) (rows_of v rows))) (0, priv_width c),
        ScaleLinear (d3_min (column num kx rows), d3_max (column num kx rows))
          (priv_height c, 0)]"
    and d: "dr' = \<lparr>line_data =
            map (\<lambda>d. \<lparr>px = cell d [], py = to_number num (cell d kx)\<rparr>) (rows_of v rows),
          dots =
            map (\<lambda>d. \<lparr>x_of = cell d [], y_of = cell d kx,
                       active = strict_eq (cell d []) (priv_key_y c)\<rparr>) (rows_of v rows)\<rparr>"
    by blast
  have sy: "scales c' ! Suc (length (scales c)) =
       ScaleLinear
         (if numbers (column num kx rows) = [] then None
          else Some (Min (set (numbers (column num kx rows)))),
          if numbers (column num kx rows) = [] then None
          else Some (Max (set (numbers (column num kx rows)))))
         (priv_height c, 0)"
    unfolding s by (simp add: nth_append d3_min_eq d3_max_eq)
  have sx: "scales c' ! length (scales c) =
       ScalePoint (ordinal_domain [] (map (\<lambda>r. cell r []) (rows_of v rows))) (0, priv_width c)"
    unfolding s by (simp add: nth_append)
  from k x y sy sx show ?thesis unfolding dr d by blast
qed

theorem render_scales_and_points_witness:
  "\<exists>c d c' d' dr. example_chart = Inr (c, d) \<and>
     render example_num (Str ''Bayern'') (Parsed example_rows) (c, d) = Inr ((c', d'), dr) \<and>
     (\<exists>xi yi. priv_x c' = Some xi \<and> priv_y c' = Some yi \<and>
        scales c' ! yi = ScaleLinear (Some 1, Some 9) (330, 0) \<and>
        scales c' ! xi = ScalePoint [Str ''S1'', Str ''S2''] (0, 590)) \<and>
     map_option line_data dr =
       Some [\<lparr>px = Str ''S1'', py = Some 5\<rparr>, \<lparr>px = Str ''S2'', py = Some 7\<rparr>]"
proof -
  obtain c d where e: "example_chart = Inr (c, d)"
    using not_isl_Inr [OF example_chart_ok] by auto
  have kx: "priv_key_x c = Str ''German f''" and h: "priv_height c = 330"
    and w: "priv_width c = 590"
    using example_chart_fields by (simp_all add: e)
  obtain c' d' dr where
    r: "render example_num (Str ''Bayern'') (Parsed example_rows) (c, d) = Inr ((c', d'), dr)"
    using not_isl_Inr [OF example_render_ok] unfolding e by auto
  have sel: "rows_of (Str ''Bayern'') example_rows =
      [[[] \<mapsto> ''S1'', ''state'' \<mapsto> ''Bayern'', ''German f'' \<mapsto> ''5''],
       [[] \<mapsto> ''S2'', ''state'' \<mapsto> ''Bayern'', ''German f'' \<mapsto> ''7'']]"
    by (simp add: rows_of_def example_rows_def cell_def)
  have col: "numbers (column example_num ''German f'' example_rows) = [5, 1, 7, 9]"
    by (simp add: column_def example_rows_def cell_def example_num_def)
  from render_scales_and_points [OF r] obtain xi yi where
    "priv_x c' = Some xi" and "priv_y c' = Some yi"
    and "scales c' ! yi = ScaleLinear (Some 1, Some 9) (330, 0)"
    and "scales c' ! xi = ScalePoint [Str ''S1'', Str ''S2''] (0, 590)"
    and "map_option line_data dr =
       Some [\<lparr>px = Str ''S1'', py = Some 5\<rparr>, \<lparr>px = Str ''S2'', py = Some 7\<rparr>]"
    unfolding kx h w sel by (auto simp add: col cell_def example_num_def)
  with e r show ?thesis by blast
qed

end
